theory Spec2Isabelle
  imports Complex_Main
begin

section \<open>JavaScript values and built-ins used by the two modules\<close>

text \<open>
  Strings are lists of code units; \<^typ>\<open>char\<close> has the code units below 256, which covers
  every character the regular expressions of the source name explicitly. The rupee sign
  U+20B9 has no \<^typ>\<open>char\<close>; it is written as its three UTF-8 bytes (\<open>rupee\<close> below).

  Numbers: the source computes with IEEE doubles. The product form only parses a number
  and tests it for \<open>NaN\<close>, for zero and for its sign; for it \<open>jsnum\<close> holds the exact value
  of the decimal literal in place of the double nearest to it, next to \<open>NaN\<close> and the two
  infinities. These tests come out alike on both, except for a literal so small (at most
  \<open>2 ^ - 1075\<close> in magnitude) that a double reads it as zero. The order form multiplies, adds, prints
  and re-reads amounts, where the rounding of doubles shows; it takes its arithmetic as a
  parameter instead (see there). Integers read by \<open>parseInt\<close> are \<^typ>\<open>int option\<close>, \<open>None\<close>
  standing for \<open>NaN\<close>; a number carries an integer exactly up to \<open>2 ^ 53\<close> in magnitude,
  and the statements about the order form that depend on the value of such an integer
  assume it in that range.
\<close>

datatype jsnum = NaN | Num real | PosInfinity | NegInfinity

text \<open>Truthiness of a number (\<open>!x\<close> is its negation): \<open>NaN\<close> and zero are falsy.\<close>

fun js_truthy :: "jsnum \<Rightarrow> bool" where
  "js_truthy NaN = False"
| "js_truthy (Num r) = (r \<noteq> 0)"
| "js_truthy PosInfinity = True"
| "js_truthy NegInfinity = True"

text \<open>\<open>x <= 0\<close> on numbers; every comparison with \<open>NaN\<close> is false.\<close>

fun js_le_zero :: "jsnum \<Rightarrow> bool" where
  "js_le_zero NaN = False"
| "js_le_zero (Num r) = (r \<le> 0)"
| "js_le_zero PosInfinity = False"
| "js_le_zero NegInfinity = True"

text \<open>Addition of such numbers.\<close>

fun js_add :: "jsnum \<Rightarrow> jsnum \<Rightarrow> jsnum" where
  "js_add NaN y = NaN"
| "js_add x NaN = NaN"
| "js_add (Num a) (Num b) = Num (a + b)"
| "js_add (Num a) y = y"
| "js_add x (Num b) = x"
| "js_add PosInfinity PosInfinity = PosInfinity"
| "js_add NegInfinity NegInfinity = NegInfinity"
| "js_add PosInfinity NegInfinity = NaN"
| "js_add NegInfinity PosInfinity = NaN"

definition is_digit :: "char \<Rightarrow> bool" where
  "is_digit c = (48 \<le> (of_char c :: nat) \<and> (of_char c :: nat) \<le> 57)"

definition is_upper :: "char \<Rightarrow> bool" where
  "is_upper c = (65 \<le> (of_char c :: nat) \<and> (of_char c :: nat) \<le> 90)"

definition is_lower :: "char \<Rightarrow> bool" where
  "is_lower c = (97 \<le> (of_char c :: nat) \<and> (of_char c :: nat) \<le> 122)"

definition is_hex_digit :: "char \<Rightarrow> bool" where
  "is_hex_digit c =
     (is_digit c \<or> (65 \<le> (of_char c :: nat) \<and> (of_char c :: nat) \<le> 70)
        \<or> (97 \<le> (of_char c :: nat) \<and> (of_char c :: nat) \<le> 102))"

text \<open>
  White space as \<open>String.prototype.trim\<close>, \<open>parseInt\<close>, \<open>parseFloat\<close> and the class
  \<open>\s\<close> of a regular expression see it, restricted to code units below 256: tab, line
  feed, vertical tab, form feed, carriage return, space and the no-break space.
\<close>

definition js_whitespace :: "char \<Rightarrow> bool" where
  "js_whitespace c =
     (c \<in> set [CHR 0x09, CHR 0x0A, CHR 0x0B, CHR 0x0C, CHR 0x0D, CHR 0x20, CHR 0xA0])"

definition trim :: "string \<Rightarrow> string" where
  "trim s = rev (dropWhile js_whitespace (rev (dropWhile js_whitespace s)))"

definition digit_val :: "char \<Rightarrow> nat" where
  "digit_val c = of_char c - 48"

definition hex_val :: "char \<Rightarrow> nat" where
  "hex_val c =
     (if is_digit c then of_char c - 48
      else if is_upper c then of_char c - 55
      else of_char c - 87)"

definition digits_value :: "nat \<Rightarrow> (char \<Rightarrow> nat) \<Rightarrow> string \<Rightarrow> nat" where
  "digits_value radix val ds = foldl (\<lambda>a c. radix * a + val c) 0 ds"

text \<open>
  \<open>parseInt(s)\<close> with no radix: leading white space is skipped, a sign is read, the
  prefix \<open>0x\<close> selects radix 16, then the longest run of digits is the value; no digit
  gives \<open>NaN\<close>.
\<close>

definition parseInt :: "string \<Rightarrow> int option" where
  "parseInt s =
     (let t = dropWhile js_whitespace s;
          neg = (take 1 t = ''-'');
          u = (if take 1 t = ''-'' \<or> take 1 t = ''+'' then drop 1 t else t);
          hex = (take 2 u = ''0x'' \<or> take 2 u = ''0X'');
          v = (if hex then drop 2 u else u);
          ds = takeWhile (if hex then is_hex_digit else is_digit) v
      in if ds = [] then None
         else Some ((if neg then - 1 else 1) *
                int (digits_value (if hex then 16 else 10) (if hex then hex_val else digit_val) ds)))"

text \<open>The exponent part \<open>e[+-]digits\<close> at the head of a string; 0 when there is none.\<close>

definition exponent_part :: "string \<Rightarrow> int" where
  "exponent_part r =
     (if take 1 r = ''e'' \<or> take 1 r = ''E'' then
        (let r1 = drop 1 r;
             neg = (take 1 r1 = ''-'');
             r2 = (if take 1 r1 = ''-'' \<or> take 1 r1 = ''+'' then drop 1 r1 else r1);
             ds = takeWhile is_digit r2
         in if ds = [] then 0
            else (if neg then - 1 else 1) * int (digits_value 10 digit_val ds))
      else 0)"

text \<open>
  \<open>parseFloat(s)\<close>: leading white space is skipped and the longest prefix that is a
  decimal literal (sign, \<open>Infinity\<close> or digits with an optional fraction and exponent)
  is the value; no such prefix gives \<open>NaN\<close>.
\<close>

definition parseFloat :: "string \<Rightarrow> jsnum" where
  "parseFloat s =
     (let t = dropWhile js_whitespace s;
          neg = (take 1 t = ''-'');
          u = (if take 1 t = ''-'' \<or> take 1 t = ''+'' then drop 1 t else t);
          ip = takeWhile is_digit u;
          r1 = dropWhile is_digit u;
          fp = (if take 1 r1 = ''.'' then takeWhile is_digit (drop 1 r1) else []);
          r2 = (if take 1 r1 = ''.'' then dropWhile is_digit (drop 1 r1) else r1)
      in if take 8 u = ''Infinity'' then (if neg then NegInfinity else PosInfinity)
         else if ip = [] \<and> fp = [] then NaN
         else Num ((if neg then - 1 else 1) *
                (real (digits_value 10 digit_val ip)
                   + real (digits_value 10 digit_val fp) / 10 ^ length fp) *
                10 powi exponent_part r2))"

text \<open>\<open>String(n)\<close> for a natural number and for an integer.\<close>

fun show_nat :: "nat \<Rightarrow> string" where
  "show_nat n =
     (if n < 10 then [char_of (48 + n)]
      else show_nat (n div 10) @ [char_of (48 + n mod 10)])"

declare show_nat.simps [simp del]

definition show_int :: "int \<Rightarrow> string" where
  "show_int k = (if k < 0 then ''-'' @ show_nat (nat (- k)) else show_nat (nat k))"

text \<open>
  \<open>escapeHtml(text)\<close> sets the text of a detached element and reads its markup back;
  the serialisation of a text node replaces the ampersand, the two angle brackets and the
  no-break space, and nothing else (quotes are kept).
\<close>

definition escape_char :: "char \<Rightarrow> string" where
  "escape_char c =
     (if c = CHR ''&'' then ''&amp;''
      else if c = CHR ''<'' then ''&lt;''
      else if c = CHR ''>'' then ''&gt;''
      else if c = CHR 0xA0 then ''&nbsp;''
      else [c])"

definition escapeHtml :: "string \<Rightarrow> string" where
  "escapeHtml text = concat (map escape_char text)"

section \<open>Shared data: products, notifications, requests\<close>

record product =
  prod_id :: int
  prod_name :: string
  prod_unit :: string
  prod_price :: real
  prod_stock :: int

datatype toast_type = Success | Error | Info

type_synonym toast = "string \<times> toast_type"

text \<open>The fields of the body \<open>{name, unit, price, stock}\<close> sent when a product is saved.\<close>

record product_data =
  data_name :: string
  data_unit :: "string option"
  data_price :: jsnum
  data_stock :: int

text \<open>The calls of \<open>fetch\<close>, in the order they are issued.\<close>

datatype request =
    GetProducts
  | CreateProduct product_data
  | UpdateProduct int product_data
  | DeleteProduct int
  | GetOrders
  | GetStats
  | CreateOrder string "(string \<times> int) list"

text \<open>
  What a call of \<open>fetch\<close> comes back with: the promise is rejected (transport failure,
  with the browser's message), or the status is not a success (with the \<open>error\<close> field
  of the body when there is one), or the status is a success and the body is parsed.
\<close>

datatype 'a response = TransportFailure string | HttpError "string option" | HttpOk 'a

text \<open>
  \<open>formatCurrency(amount)\<close>, the same method in both classes:
  \<open>Intl.NumberFormat("en-IN", {style: "currency", currency: "INR", minimumFractionDigits: 2})\<close>
  rounds to two fraction digits (half away from zero), groups the integer digits the
  Indian way (the last three, then pairs) and puts the sign before the rupee sign. The
  trailing \<open>replace\<close> of the source replaces the rupee sign by itself.
\<close>

definition rupee :: string where
  "rupee = [CHR 0xE2, CHR 0x82, CHR 0xB9]"

definition round_paise :: "real \<Rightarrow> nat" where
  "round_paise x = nat \<lfloor>\<bar>x\<bar> * 100 + 1 / 2\<rfloor>"

fun group_pairs_rev :: "string \<Rightarrow> string" where
  "group_pairs_rev (a # b # c # ds) = a # b # CHR '','' # group_pairs_rev (c # ds)"
| "group_pairs_rev ds = ds"

fun group_indian_rev :: "string \<Rightarrow> string" where
  "group_indian_rev (a # b # c # d # ds) = a # b # c # CHR '','' # group_pairs_rev (d # ds)"
| "group_indian_rev ds = ds"

definition group_indian :: "string \<Rightarrow> string" where
  "group_indian ds = rev (group_indian_rev (rev ds))"

definition two_digits :: "nat \<Rightarrow> string" where
  "two_digits n = [char_of (48 + n div 10), char_of (48 + n mod 10)]"

definition formatCurrency :: "real \<Rightarrow> string" where
  "formatCurrency amount =
     (if amount < 0 then ''-'' else []) @ rupee
       @ group_indian (show_nat (round_paise amount div 100))
       @ ''.'' @ two_digits (round_paise amount mod 100)"

section \<open>The Product Catalog Manager (\<open>static/manage-products.js\<close>)\<close>

text \<open>
  The table body is kept as the rows the markup denotes: each row remembers the markup
  it was built from, its \<open>data-product-id\<close> and what its button group shows.
\<close>

datatype btn_group = Buttons | Spinner

record table_row =
  row_product_id :: int
  row_html :: string
  row_actions :: btn_group

datatype tbody = LoadingRow | EmptyState | ProductRows "table_row list"

text \<open>The values of the inputs of the product form; the unit select may have no value.\<close>

record product_form =
  name_val :: string
  uoms_val :: "string option"
  price_val :: string
  stock_val :: string

record manager =
  products :: "product list"
  currentProduct :: "product option"
  isEditMode :: bool
  productToDelete :: "int option"
  form :: product_form
  field_errors :: "(string \<times> string) list"
  table :: tbody
  product_modal_open :: bool
  confirm_modal_open :: bool
  confirm_text :: string
  save_disabled :: bool
  toasts :: "toast list"
  requests :: "request list"

definition showToast_pm :: "string \<Rightarrow> toast_type \<Rightarrow> manager \<Rightarrow> manager" where
  "showToast_pm message type m = m\<lparr>toasts := toasts m @ [(message, type)]\<rparr>"

definition stockClass :: "product \<Rightarrow> string" where
  "stockClass p =
     (if prod_stock p \<le> 10 then ''text-danger''
      else if prod_stock p \<le> 20 then ''text-warning''
      else ''text-success'')"

definition stockIcon :: "product \<Rightarrow> string" where
  "stockIcon p =
     (if prod_stock p \<le> 10 then ''fas fa-exclamation-triangle''
      else if prod_stock p \<le> 20 then ''fas fa-exclamation-circle''
      else ''fas fa-check-circle'')"

text \<open>
  The template literal of one table row in \<open>displayProducts\<close>, with every run of white
  space of the template reduced to one space. Only the name goes through \<open>escapeHtml\<close>.
\<close>

definition product_row_html :: "product \<Rightarrow> string" where
  \<open>product_row_html p =
     '' <tr data-product-id="'' @ show_int (prod_id p) @ ''">''
     @ '' <td> <strong>'' @ escapeHtml (prod_name p) @ ''</strong> </td>''
     @ '' <td> <span class="label label-default">'' @ prod_unit p @ ''</span> </td>''
     @ '' <td> <strong>'' @ formatCurrency (prod_price p) @ ''</strong> </td>''
     @ '' <td class="'' @ stockClass p @ ''"> <i class="'' @ stockIcon p @ ''"></i> ''
     @ show_int (prod_stock p) @ '' units </td>''
     @ '' <td> <div class="btn-group" role="group">''
     @ '' <button class="btn btn-sm btn-info" onclick="productManager.editProduct(''
     @ show_int (prod_id p) @ '')" title="Edit Product"> <i class="fas fa-edit"></i> </button>''
     @ '' <button class="btn btn-sm btn-danger" onclick="productManager.confirmDeleteProduct(''
     @ show_int (prod_id p) @ '')" title="Delete Product"> <i class="fas fa-trash"></i> </button>''
     @ '' </div> </td> </tr> ''\<close>

text \<open>
  \<open>displayProducts()\<close> has no parameter: it renders \<open>this.products\<close>, whatever a caller
  passes.
\<close>

definition displayProducts :: "manager \<Rightarrow> manager" where
  "displayProducts m =
     (if products m = [] then m\<lparr>table := EmptyState\<rparr>
      else m\<lparr>table := ProductRows
             (map (\<lambda>p. \<lparr>row_product_id = prod_id p, row_html = product_row_html p,
                         row_actions = Buttons\<rparr>) (products m))\<rparr>)"

definition showTableLoading :: "bool \<Rightarrow> manager \<Rightarrow> manager" where
  "showTableLoading show m = (if show then m\<lparr>table := LoadingRow\<rparr> else m)"

text \<open>
  \<open>fetchProducts()\<close>: the response of the GET is a parameter. A rejected promise and a
  status that is not a success both reach the \<open>catch\<close> block, which calls
  \<open>this.displayProducts([])\<close>; the \<open>finally\<close> block calls \<open>showTableLoading(false)\<close>.
\<close>

definition fetchProducts_pm :: "product list response \<Rightarrow> manager \<Rightarrow> manager" where
  "fetchProducts_pm resp m =
     (let m1 = showTableLoading True m;
          m2 = m1\<lparr>requests := requests m1 @ [GetProducts]\<rparr>;
          m3 = (case resp of
                  HttpOk ps \<Rightarrow> displayProducts (m2\<lparr>products := ps\<rparr>)
                | _ \<Rightarrow> displayProducts (showToast_pm ''Failed to load products'' Error m2))
      in showTableLoading False m3)"

text \<open>
  The three methods that save and delete throw \<open>result.error || "Failed to ..."\<close> on a
  status that is not a success; \<open>failure_message\<close> is the message of the error that
  reaches the caller's \<open>catch\<close>, \<open>None\<close> when the call succeeds.
\<close>

definition failure_message :: "string \<Rightarrow> 'a response \<Rightarrow> string option" where
  "failure_message fallback resp =
     (case resp of
        TransportFailure msg \<Rightarrow> Some msg
      | HttpError None \<Rightarrow> Some fallback
      | HttpError (Some e) \<Rightarrow> Some (if e = [] then fallback else e)
      | HttpOk _ \<Rightarrow> None)"

definition getFormData :: "manager \<Rightarrow> product_data" where
  "getFormData m =
     \<lparr>data_name = trim (name_val (form m)),
      data_unit = uoms_val (form m),
      data_price = parseFloat (price_val (form m)),
      data_stock = (case parseInt (stock_val (form m)) of None \<Rightarrow> 0 | Some k \<Rightarrow> k)\<rparr>"

text \<open>The name pattern \<open>/^[a-zA-Z0-9\s\-\_]+$/\<close>: one or more characters of the class.\<close>

definition name_char :: "char \<Rightarrow> bool" where
  "name_char c =
     (is_lower c \<or> is_upper c \<or> is_digit c \<or> js_whitespace c \<or> c = CHR ''-'' \<or> c = CHR ''_'')"

definition name_pattern :: "string \<Rightarrow> bool" where
  "name_pattern s = (s \<noteq> [] \<and> list_all name_char s)"

definition showFieldError :: "string \<Rightarrow> string \<Rightarrow> manager \<Rightarrow> manager" where
  "showFieldError fieldSelector message m =
     m\<lparr>field_errors := field_errors m @ [(fieldSelector, message)]\<rparr>"

text \<open>
  \<open>validateForm()\<close> returns \<open>isValid\<close> and leaves the field errors in the form. The
  four checks run in the source's order, each on its own.
\<close>

definition validate_name :: "manager \<Rightarrow> bool" where
  "validate_name m =
     (let name = trim (name_val (form m))
      in if name = [] \<or> length name < 2 then False
         else if name_pattern name then True else False)"

definition validate_unit :: "manager \<Rightarrow> bool" where
  "validate_unit m = (case uoms_val (form m) of None \<Rightarrow> False | Some u \<Rightarrow> u \<noteq> [])"

definition validate_price :: "manager \<Rightarrow> bool" where
  "validate_price m =
     (let price = parseFloat (price_val (form m))
      in if js_truthy price then (if js_le_zero price then False else True) else False)"

definition validate_stock :: "manager \<Rightarrow> bool" where
  "validate_stock m =
     (case parseInt (stock_val (form m)) of None \<Rightarrow> False | Some stock \<Rightarrow> 0 \<le> stock)"

definition validateForm :: "manager \<Rightarrow> bool \<times> manager" where
  "validateForm m =
     (let m0 = m\<lparr>field_errors := []\<rparr>;
          name = trim (name_val (form m));
          m1 = (if name = [] \<or> length name < 2
                then showFieldError ''#name'' ''Product name must be at least 2 characters long'' m0
                else if name_pattern name then m0
                else showFieldError ''#name'' ''Product name contains invalid characters'' m0);
          m2 = (if validate_unit m then m1
                else showFieldError ''#uoms'' ''Please select a unit'' m1);
          m3 = (if validate_price m then m2
                else showFieldError ''#price'' ''Price must be greater than 0'' m2);
          m4 = (if validate_stock m then m3
                else showFieldError ''#stock'' ''Stock must be 0 or greater'' m3)
      in (validate_name m \<and> validate_unit m \<and> validate_price m \<and> validate_stock m, m4))"

definition showLoading :: "bool \<Rightarrow> manager \<Rightarrow> manager" where
  "showLoading show m = m\<lparr>save_disabled := show\<rparr>"

text \<open>
  \<open>handleSaveProduct()\<close>: \<open>save\<close> is the response of the POST or PUT and \<open>refetch\<close>
  that of the GET which follows a successful save. In edit mode with no current product
  the read of \<open>this.currentProduct.id\<close> throws inside the \<open>try\<close> block, and the \<open>catch\<close>
  block notifies the message of the \<open>TypeError\<close>, written here as V8 words it.
\<close>

definition handleSaveProduct ::
  "unit response \<Rightarrow> product list response \<Rightarrow> manager \<Rightarrow> manager" where
  "handleSaveProduct save refetch m =
     (let (isValid, m1) = validateForm m
      in if isValid then
           (let productData = getFormData m1;
                m2 = showLoading True m1;
                m3 =
                  (if isEditMode m2 then
                     (case currentProduct m2 of
                        None \<Rightarrow> showToast_pm ''Cannot read properties of null (reading 'id')'' Error m2
                      | Some cp \<Rightarrow>
                          (let m' = m2\<lparr>requests := requests m2 @ [UpdateProduct (prod_id cp) productData]\<rparr>
                           in case failure_message ''Failed to update product'' save of
                                Some msg \<Rightarrow> showToast_pm msg Error m'
                              | None \<Rightarrow>
                                  fetchProducts_pm refetch
                                    ((showToast_pm ''Product updated successfully!'' Success m')
                                       \<lparr>product_modal_open := False\<rparr>)))
                   else
                     (let m' = m2\<lparr>requests := requests m2 @ [CreateProduct productData]\<rparr>
                      in case failure_message ''Failed to add product'' save of
                           Some msg \<Rightarrow> showToast_pm msg Error m'
                         | None \<Rightarrow>
                             fetchProducts_pm refetch
                               ((showToast_pm ''Product added successfully!'' Success m')
                                  \<lparr>product_modal_open := False\<rparr>)))
            in showLoading False m3)
         else m1)"

text \<open>The live input handlers: each returns the new value of the field.\<close>

definition price_pattern :: "string \<Rightarrow> bool" where
  \<comment> \<open>\<open>/^\d*\.?\d{0,2}$/\<close>: digits, then nothing or a dot and at most two digits\<close>
  "price_pattern v =
     (let r = dropWhile is_digit v
      in r = [] \<or> (take 1 r = ''.'' \<and> length (drop 1 r) \<le> 2 \<and> list_all is_digit (drop 1 r)))"

definition validatePriceInput :: "string \<Rightarrow> string" where
  "validatePriceInput v = (if price_pattern v then v else butlast v)"

definition validateStockInput :: "string \<Rightarrow> string" where
  "validateStockInput v = (if list_all is_digit v then v else filter is_digit v)"

definition validateNameInput :: "string \<Rightarrow> string" where
  "validateNameInput v = (if list_all name_char v then v else butlast v)"

text \<open>The delete flow.\<close>

definition showRowLoading :: "int \<Rightarrow> bool \<Rightarrow> manager \<Rightarrow> manager" where
  "showRowLoading productId show m =
     (if show then
        (case table m of
           ProductRows rs \<Rightarrow>
             m\<lparr>table := ProductRows
                  (map (\<lambda>r. if row_product_id r = productId then r\<lparr>row_actions := Spinner\<rparr> else r) rs)\<rparr>
         | _ \<Rightarrow> m)
      else m)"

definition confirmDeleteProduct :: "int \<Rightarrow> manager \<Rightarrow> manager" where
  \<open>confirmDeleteProduct productId m =
     (case find (\<lambda>p. prod_id p = productId) (products m) of
        None \<Rightarrow> showToast_pm ''Product not found'' Error m
      | Some product \<Rightarrow>
          m\<lparr>productToDelete := Some productId,
            confirm_text := ''Are you sure you want to delete "'' @ prod_name product @ ''"?'',
            confirm_modal_open := True\<rparr>)\<close>

definition deleteProductById ::
  "unit response \<Rightarrow> product list response \<Rightarrow> int \<Rightarrow> manager \<Rightarrow> manager" where
  "deleteProductById del refetch productId m =
     (let m1 = showRowLoading productId True m;
          m2 = m1\<lparr>requests := requests m1 @ [DeleteProduct productId]\<rparr>
      in case failure_message ''Failed to delete product'' del of
           None \<Rightarrow> fetchProducts_pm refetch (showToast_pm ''Product deleted successfully!'' Success m2)
         | Some msg \<Rightarrow> showRowLoading productId False (showToast_pm msg Error m2))"

text \<open>
  \<open>handleConfirmDelete()\<close> tests \<open>this.productToDelete\<close> for truthiness: an absent id
  and the id 0 are both falsy.
\<close>

definition handleConfirmDelete ::
  "unit response \<Rightarrow> product list response \<Rightarrow> manager \<Rightarrow> manager" where
  "handleConfirmDelete del refetch m =
     (case productToDelete m of
        None \<Rightarrow> m
      | Some productId \<Rightarrow>
          if productId = 0 then m
          else (deleteProductById del refetch productId m)
                 \<lparr>confirm_modal_open := False, productToDelete := None\<rparr>)"

text \<open>The state the constructor leaves: nothing fetched yet, no id stored for deletion.\<close>

definition manager_init :: manager where
  "manager_init =
     \<lparr>products = [], currentProduct = None, isEditMode = False, productToDelete = None,
      form = \<lparr>name_val = [], uoms_val = None, price_val = [], stock_val = []\<rparr>,
      field_errors = [], table = EmptyState, product_modal_open = False,
      confirm_modal_open = False, confirm_text = [], save_disabled = False,
      toasts = [], requests = []\<rparr>"

section \<open>The Order Composer (the dashboard class \<open>GroceryStore\<close>)\<close>

text \<open>
  The numbers of the order form are the doubles of the browser: prices come out of JSON,
  a subtotal is a product of doubles, the total is a sum of doubles, and amounts go
  through \<open>Intl.NumberFormat\<close> and back through \<open>parseFloat\<close>. None of that is defined in
  the repository, and rounding, negative zero and the infinities all show in what is
  displayed. The order form is therefore written over an arbitrary number type \<open>'n\<close> and
  takes the operations of the browser as a parameter:
  \<^item> \<open>num_zero\<close>, the literal \<open>0\<close>;
  \<^item> \<open>num_add\<close> and \<open>num_mul\<close>, the operators \<open>+\<close> and \<open>*\<close>;
  \<^item> \<open>num_truthy\<close>, the truthiness that \<open>x || 0\<close> tests;
  \<^item> \<open>num_of_int\<close>, the number \<open>parseInt\<close> returns when it reads an integer;
  \<^item> \<open>num_of_json\<close>, the number a JSON price becomes;
  \<^item> \<open>num_parseFloat\<close>, the built-in \<open>parseFloat\<close>;
  \<^item> \<open>num_formatCurrency\<close>, the method \<open>formatCurrency\<close>, which only calls
    \<open>Intl.NumberFormat\<close>.
  Whatever is proved below holds for every such family of operations, in particular for
  the doubles.
\<close>

record 'n arith =
  num_zero :: 'n
  num_add :: "'n \<Rightarrow> 'n \<Rightarrow> 'n"
  num_mul :: "'n \<Rightarrow> 'n \<Rightarrow> 'n"
  num_truthy :: "'n \<Rightarrow> bool"
  num_of_int :: "int \<Rightarrow> 'n"
  num_of_json :: "real \<Rightarrow> 'n"
  num_parseFloat :: "string \<Rightarrow> 'n"
  num_formatCurrency :: "'n \<Rightarrow> string"

text \<open>\<open>x || 0\<close> on numbers.\<close>

definition or_zero :: "'n arith \<Rightarrow> 'n \<Rightarrow> 'n" where
  "or_zero A x = (if num_truthy A x then x else num_zero A)"

text \<open>
  One \<open>.product-row\<close> of the order form, as the handlers read and write it: the selected
  option of its select (\<open>None\<close> is the placeholder with the empty value; a product
  stands for the option generated from it, whose \<open>value\<close>, \<open>data-price\<close> and
  \<open>data-stock\<close> are the product's name, price and stock), the value of the quantity
  input, its \<open>disabled\<close> property and \<open>max\<close> attribute, and the text of the subtotal.
  Names are taken to be free of the characters that would end the attribute they are
  interpolated into.
\<close>

record order_row =
  data_index :: nat
  selected :: "product option"
  quantity_val :: string
  quantity_disabled :: bool
  quantity_max :: "string option"
  subtotal_text :: string

record 'n store =
  allProducts :: "product list"
  orderTotal :: 'n
  order_rows :: "order_row list"
  customer_name :: string
  loading_modal :: bool
  notices :: "toast list"
  calls :: "request list"

definition store_init :: "'n arith \<Rightarrow> 'n store" where
  "store_init A =
     \<lparr>allProducts = [], orderTotal = num_zero A, order_rows = [], customer_name = [],
      loading_modal = False, notices = [], calls = []\<rparr>"

definition showToast_gs :: "string \<Rightarrow> toast_type \<Rightarrow> 'n store \<Rightarrow> 'n store" where
  "showToast_gs message type s = s\<lparr>notices := notices s @ [(message, type)]\<rparr>"

text \<open>
  \<open>subtotalText.replace(/[R,]/g, "")\<close>, where \<open>R\<close> stands for the rupee sign: every
  rupee sign and every comma is deleted.
\<close>

fun strip_currency :: "string \<Rightarrow> string" where
  "strip_currency (a # b # c # s) =
     (if [a, b, c] = rupee then strip_currency s
      else if a = CHR '','' then strip_currency (b # c # s)
      else a # strip_currency (b # c # s))"
| "strip_currency (a # s) =
     (if a = CHR '','' then strip_currency s else a # strip_currency s)"
| "strip_currency [] = []"

text \<open>
  \<open>updateOrderTotal()\<close>: the loop over the rows, in their order, that re-reads each
  rendered subtotal and adds it to \<open>total\<close> (\<open>displayed_total\<close>), and the assignment of
  the result.
\<close>

definition displayed_total :: "'n arith \<Rightarrow> order_row list \<Rightarrow> 'n" where
  "displayed_total A rs =
     foldl (\<lambda>total r.
              num_add A total (or_zero A (num_parseFloat A (strip_currency (subtotal_text r)))))
       (num_zero A) rs"

definition updateOrderTotal :: "'n arith \<Rightarrow> 'n store \<Rightarrow> 'n store" where
  "updateOrderTotal A s = s\<lparr>orderTotal := displayed_total A (order_rows s)\<rparr>"

text \<open>
  \<open>selectedOption.val()\<close> reads the value of the selected option itself;
  \<open>$(".product-select").val()\<close> reads the select, and jQuery answers \<open>null\<close> (here
  \<open>None\<close>) when the selected option is disabled, as the option of a product with no
  stock is.
\<close>

definition option_val :: "order_row \<Rightarrow> string" where
  "option_val r = (case selected r of None \<Rightarrow> [] | Some p \<Rightarrow> prod_name p)"

definition select_val :: "order_row \<Rightarrow> string option" where
  "select_val r =
     (case selected r of
        None \<Rightarrow> Some []
      | Some p \<Rightarrow> if prod_stock p \<le> 0 then None else Some (prod_name p))"

text \<open>
  \<open>calculateRowSubtotal($row)\<close>: \<open>parseFloat(selectedOption.data("price")) || 0\<close> is
  the price of the selected product, and 0 for the placeholder, whose option has no
  price; \<open>parseInt($quantityInput.val()) || 0\<close> is the quantity, and 0 when \<open>parseInt\<close>
  reads no number. In this function and in the two handlers below, \<open>i\<close> is the position
  of the row that holds the element the event came from, so it is below the number of
  rows; \<open>row_step\<close> calls them only so.
\<close>

definition row_price :: "'n arith \<Rightarrow> order_row \<Rightarrow> 'n" where
  "row_price A r =
     (case selected r of
        None \<Rightarrow> num_zero A
      | Some p \<Rightarrow> or_zero A (num_of_json A (prod_price p)))"

definition row_quantity :: "'n arith \<Rightarrow> order_row \<Rightarrow> 'n" where
  "row_quantity A r =
     (case parseInt (quantity_val r) of
        None \<Rightarrow> num_zero A
      | Some q \<Rightarrow> or_zero A (num_of_int A q))"

definition row_subtotal :: "'n arith \<Rightarrow> order_row \<Rightarrow> 'n" where
  "row_subtotal A r = num_mul A (row_price A r) (row_quantity A r)"

definition calculateRowSubtotal :: "'n arith \<Rightarrow> nat \<Rightarrow> 'n store \<Rightarrow> 'n store" where
  "calculateRowSubtotal A i s =
     updateOrderTotal A
       (s\<lparr>order_rows := (order_rows s)
            [i := (order_rows s ! i)
                    \<lparr>subtotal_text := num_formatCurrency A (row_subtotal A (order_rows s ! i))\<rparr>]\<rparr>)"

text \<open>The row of the template literal in \<open>addProductRow\<close>; its subtotal reads 0.00.\<close>

definition new_row :: "nat \<Rightarrow> order_row" where
  "new_row rowIndex =
     \<lparr>data_index = rowIndex, selected = None, quantity_val = [], quantity_disabled = False,
      quantity_max = None, subtotal_text = rupee @ ''0.00''\<rparr>"

definition addProductRow :: "'n arith \<Rightarrow> 'n store \<Rightarrow> 'n store" where
  "addProductRow A s =
     (if allProducts s = [] then
        showToast_gs ''No products available. Please add products first.'' Error s
      else updateOrderTotal A
             (s\<lparr>order_rows := order_rows s @ [new_row (length (order_rows s))]\<rparr>))"

definition addFirstProductRow :: "'n arith \<Rightarrow> 'n store \<Rightarrow> 'n store" where
  "addFirstProductRow A s = (if order_rows s = [] then addProductRow A s else s)"

text \<open>
  \<open>removeProductRow(e)\<close>, once the fade-out of the clicked row has ended and its callback
  has run; \<open>i\<close> is the position of the row that holds the clicked button. The callback
  removes the row, updates the total and, under the comment
  \<open>// Ensure at least one product row exists\<close>, calls \<open>addProductRow\<close> when no row is
  left.
\<close>

definition remove_nth :: "nat \<Rightarrow> 'a list \<Rightarrow> 'a list" where
  "remove_nth i xs = take i xs @ drop (Suc i) xs"

definition removeProductRow :: "'n arith \<Rightarrow> nat \<Rightarrow> 'n store \<Rightarrow> 'n store" where
  "removeProductRow A i s =
     (if i < length (order_rows s) then
        (let s1 = updateOrderTotal A (s\<lparr>order_rows := remove_nth i (order_rows s)\<rparr>)
         in if order_rows s1 = [] then addProductRow A s1 else s1)
      else s)"

text \<open>
  \<open>handleProductChange(e)\<close> on row \<open>i\<close>, after the browser has made the chosen option
  the selected one. \<open>attr("max", maxStock)\<close> stores the number as text.
\<close>

definition handleProductChange :: "'n arith \<Rightarrow> nat \<Rightarrow> 'n store \<Rightarrow> 'n store" where
  "handleProductChange A i s =
     (let r = order_rows s ! i;
          s1 =
            (case selected r of
               None \<Rightarrow>
                 s\<lparr>order_rows := (order_rows s)
                      [i := r\<lparr>quantity_val := [], quantity_disabled := True, quantity_max := None\<rparr>]\<rparr>
             | Some p \<Rightarrow>
                 if option_val r = [] then
                   s\<lparr>order_rows := (order_rows s)
                        [i := r\<lparr>quantity_val := [], quantity_disabled := True, quantity_max := None\<rparr>]\<rparr>
                 else if prod_stock p = 0 then
                   showToast_gs ''Selected product is out of stock'' Error
                     (s\<lparr>order_rows := (order_rows s)
                          [i := r\<lparr>quantity_max := Some (show_int (prod_stock p)),
                                   quantity_val := [], quantity_disabled := True\<rparr>]\<rparr>)
                 else
                   s\<lparr>order_rows := (order_rows s)
                        [i := r\<lparr>quantity_max := Some (show_int (prod_stock p)),
                                 quantity_disabled := False\<rparr>]\<rparr>)
      in calculateRowSubtotal A i s1)"

text \<open>
  \<open>handleQuantityChange(e)\<close> on row \<open>i\<close>, after the browser has put the typed text into
  the input. Both sides of \<open>quantity > maxStock\<close> are what \<open>parseInt\<close> reads: the integer
  at the head of the text, so \<open>5.5\<close> is compared as 5 and \<open>1e3\<close> as 1. \<open>parseInt\<close> of a
  missing \<open>max\<close> attribute is \<open>NaN\<close>, and no number is greater than \<open>NaN\<close>. The comparison
  is that of the integers read, which is the comparison of the code as long as both are
  at most \<open>2 ^ 53\<close> in magnitude.
\<close>

definition max_attr :: "order_row \<Rightarrow> int option" where
  "max_attr r = (case quantity_max r of None \<Rightarrow> None | Some a \<Rightarrow> parseInt a)"

definition handleQuantityChange :: "'n arith \<Rightarrow> nat \<Rightarrow> 'n store \<Rightarrow> 'n store" where
  "handleQuantityChange A i s =
     (let r = order_rows s ! i;
          s1 =
            (case max_attr r of
               None \<Rightarrow> s
             | Some maxStock \<Rightarrow>
                 (case parseInt (quantity_val r) of
                    None \<Rightarrow> s
                  | Some quantity \<Rightarrow>
                      if quantity > maxStock then
                        showToast_gs (''Maximum available quantity is '' @ show_int maxStock) Info
                          (s\<lparr>order_rows := (order_rows s)[i := r\<lparr>quantity_val := show_int maxStock\<rparr>]\<rparr>)
                      else s))
      in calculateRowSubtotal A i s1)"

text \<open>
  \<open>updateProductSelects()\<close>: every select gets the new options and its former value
  back; jQuery selects the first option that carries the value (the placeholder for the
  empty value and for \<open>null\<close>) and none when no option does, which the handlers cannot
  tell from the placeholder. No subtotal is computed again.
\<close>

definition reselect :: "product list \<Rightarrow> order_row \<Rightarrow> order_row" where
  "reselect ps r =
     (case select_val r of
        None \<Rightarrow> r\<lparr>selected := None\<rparr>
      | Some v \<Rightarrow> if v = [] then r\<lparr>selected := None\<rparr>
                  else r\<lparr>selected := find (\<lambda>p. prod_name p = v) ps\<rparr>)"

definition updateProductSelects :: "'n store \<Rightarrow> 'n store" where
  "updateProductSelects s = s\<lparr>order_rows := map (reselect (allProducts s)) (order_rows s)\<rparr>"

definition fetchProducts_gs :: "product list response \<Rightarrow> 'n store \<Rightarrow> 'n store" where
  "fetchProducts_gs resp s =
     (let s1 = s\<lparr>calls := calls s @ [GetProducts]\<rparr>
      in case resp of
           HttpOk ps \<Rightarrow> updateProductSelects (s1\<lparr>allProducts := ps\<rparr>)
         | _ \<Rightarrow> showToast_gs ''Failed to load products'' Error s1)"

text \<open>
  \<open>fetchOrders()\<close> and \<open>fetchStats()\<close> as far as the store sees them: the call, and the
  notification of a failed order fetch. The orders table and the counters they fill are
  not part of the order form.
\<close>

definition fetchOrders :: "bool \<Rightarrow> 'n store \<Rightarrow> 'n store" where
  "fetchOrders ok s =
     (let s1 = s\<lparr>calls := calls s @ [GetOrders]\<rparr>
      in if ok then s1 else showToast_gs ''Failed to load orders'' Error s1)"

definition fetchStats :: "bool \<Rightarrow> 'n store \<Rightarrow> 'n store" where
  "fetchStats ok s = s\<lparr>calls := calls s @ [GetStats]\<rparr>"

record refresh_responses =
  products_response :: "product list response"
  orders_ok :: bool
  stats_ok :: bool

definition loadInitialData :: "refresh_responses \<Rightarrow> 'n store \<Rightarrow> 'n store" where
  "loadInitialData rr s =
     fetchStats (stats_ok rr) (fetchOrders (orders_ok rr) (fetchProducts_gs (products_response rr) s))"

definition refreshData :: "refresh_responses \<Rightarrow> 'n store \<Rightarrow> 'n store" where
  "refreshData rr s =
     showToast_gs ''Data refreshed successfully'' Success
       (loadInitialData rr (showToast_gs ''Refreshing data...'' Info s))"

definition resetOrderForm :: "'n arith \<Rightarrow> 'n store \<Rightarrow> 'n store" where
  "resetOrderForm A s =
     (addFirstProductRow A (s\<lparr>customer_name := [], order_rows := []\<rparr>))\<lparr>orderTotal := num_zero A\<rparr>"

definition showLoadingModal :: "bool \<Rightarrow> 'n store \<Rightarrow> 'n store" where
  "showLoadingModal show s = s\<lparr>loading_modal := show\<rparr>"

text \<open>
  \<open>handleOrderSubmit(e)\<close>. The loop over the rows pushes an item for every row whose
  select has a truthy value and whose quantity, as \<open>parseInt\<close> reads it, is above 0;
  \<open>hasValidItems\<close> is true exactly when an item was pushed. \<open>submit\<close> is the response of
  the POST (the order number of the created order) and \<open>rr\<close> the responses of the refresh
  that follows. The quantity of an item is the integer read, which is the number the code
  sends as long as it is at most \<open>2 ^ 53\<close>.
\<close>

definition row_item :: "order_row \<Rightarrow> (string \<times> int) option" where
  "row_item r =
     (case select_val r of
        None \<Rightarrow> None
      | Some productName \<Rightarrow>
          (case parseInt (quantity_val r) of
             None \<Rightarrow> None
           | Some quantity \<Rightarrow>
               if productName \<noteq> [] \<and> quantity > 0 then Some (productName, quantity) else None))"

definition collect_items :: "order_row list \<Rightarrow> (string \<times> int) list" where
  "collect_items rs = List.map_filter row_item rs"

definition handleOrderSubmit ::
  "'n arith \<Rightarrow> string response \<Rightarrow> refresh_responses \<Rightarrow> 'n store \<Rightarrow> 'n store" where
  "handleOrderSubmit A submit rr s =
     (let customerName = trim (customer_name s)
      in if customerName = [] then showToast_gs ''Please enter customer name'' Error s
         else
           (let items = collect_items (order_rows s)
            in if items = [] then
                 showToast_gs ''Please add at least one product to the order'' Error s
               else
                 (let s1 = showLoadingModal True s;
                      s2 = s1\<lparr>calls := calls s1 @ [CreateOrder customerName items]\<rparr>;
                      s3 =
                        (case submit of
                           HttpOk order_number \<Rightarrow>
                             refreshData rr
                               (resetOrderForm A
                                  (showToast_gs (''Order '' @ order_number @ '' placed successfully!'')
                                     Success s2))
                         | TransportFailure msg \<Rightarrow> showToast_gs msg Error s2
                         | HttpError e \<Rightarrow>
                             showToast_gs
                               (case e of None \<Rightarrow> ''Failed to create order''
                                | Some msg \<Rightarrow> if msg = [] then ''Failed to create order'' else msg)
                               Error s2)
                  in showLoadingModal False s3)))"

text \<open>
  \<open>generateProductOptions()\<close>, with the runs of white space of the template literal
  reduced to one space. \<open>number_text\<close> is the text JavaScript gives a price when it is
  interpolated. The name goes through \<open>escapeHtml\<close> in the label only.
\<close>

definition product_option_html :: "(real \<Rightarrow> string) \<Rightarrow> product \<Rightarrow> string" where
  \<open>product_option_html number_text p =
     '' <option value="'' @ prod_name p
     @ ''" data-price="'' @ number_text (prod_price p)
     @ ''" data-stock="'' @ show_int (prod_stock p)
     @ ''" data-unit="'' @ prod_unit p @ ''" ''
     @ (if prod_stock p \<le> 0 then ''disabled'' else [])
     @ ''> '' @ escapeHtml (prod_name p) @ '' - '' @ formatCurrency (prod_price p) @ ''/''
     @ prod_unit p @ '' ''
     @ (if prod_stock p > 0 then ''(Stock: '' @ show_int (prod_stock p) @ '')'' else ''(Out of Stock)'')
     @ '' </option> ''\<close>

definition generateProductOptions :: "(real \<Rightarrow> string) \<Rightarrow> product list \<Rightarrow> string" where
  \<open>generateProductOptions number_text ps =
     foldl (\<lambda>options product. options @ product_option_html number_text product)
       ''<option value="">-- Select Product --</option>'' ps\<close>

text \<open>
  The events of the order form. Each one is what the browser does (it makes an option
  selected, it puts text into an input) followed by the handler bound to it. An event on
  a row that does not exist cannot arise, and a disabled input takes no text.
\<close>

datatype row_event =
    AddClick
  | RemoveClick nat
  | ProductChange nat "product option"
  | QuantityInput nat string

definition row_step :: "'n arith \<Rightarrow> row_event \<Rightarrow> 'n store \<Rightarrow> 'n store" where
  "row_step A e s =
     (case e of
        AddClick \<Rightarrow> addProductRow A s
      | RemoveClick i \<Rightarrow> removeProductRow A i s
      | ProductChange i sel \<Rightarrow>
          if i < length (order_rows s) then
            handleProductChange A i
              (s\<lparr>order_rows := (order_rows s)[i := (order_rows s ! i)\<lparr>selected := sel\<rparr>]\<rparr>)
          else s
      | QuantityInput i txt \<Rightarrow>
          if i < length (order_rows s) then
            (if quantity_disabled (order_rows s ! i) then s
             else handleQuantityChange A i
                    (s\<lparr>order_rows := (order_rows s)[i := (order_rows s ! i)\<lparr>quantity_val := txt\<rparr>]\<rparr>))
          else s)"

definition run_rows :: "'n arith \<Rightarrow> row_event list \<Rightarrow> 'n store \<Rightarrow> 'n store" where
  "run_rows A es s = foldl (\<lambda>s e. row_step A e s) s es"

text \<open>The row events together with the arrival of a product list.\<close>

datatype event = RowEvent row_event | ProductsFetched "product list response"

definition step :: "'n arith \<Rightarrow> event \<Rightarrow> 'n store \<Rightarrow> 'n store" where
  "step A e s =
     (case e of
        RowEvent re \<Rightarrow> row_step A re s
      | ProductsFetched resp \<Rightarrow> fetchProducts_gs resp s)"

definition run :: "'n arith \<Rightarrow> event list \<Rightarrow> 'n store \<Rightarrow> 'n store" where
  "run A es s = foldl (\<lambda>s e. step A e s) s es"

section \<open>Concrete inputs\<close>

definition rice :: product where
  "rice = \<lparr>prod_id = 1, prod_name = ''Rice'', prod_unit = ''kg'', prod_price = 50, prod_stock = 5\<rparr>"

definition salt :: product where
  "salt = \<lparr>prod_id = 0, prod_name = ''Salt'', prod_unit = ''kg'', prod_price = 20, prod_stock = 30\<rparr>"

definition tagged :: product where
  "tagged = \<lparr>prod_id = 2, prod_name = ''<i>'', prod_unit = ''<b>'', prod_price = 50, prod_stock = 5\<rparr>"

definition oil :: product where
  "oil = \<lparr>prod_id = 3, prod_name = ''Oil'', prod_unit = ''l'', prod_price = 120, prod_stock = 0\<rparr>"

text \<open>Rice as a later fetch brings it, once its stock has been sold.\<close>

definition rice_sold :: product where
  "rice_sold = \<lparr>prod_id = 1, prod_name = ''Rice'', prod_unit = ''kg'', prod_price = 50, prod_stock = 0\<rparr>"

definition all_ok :: refresh_responses where
  "all_ok = \<lparr>products_response = HttpOk [rice], orders_ok = True, stats_ok = True\<rparr>"

text \<open>
  An arithmetic to evaluate concrete inputs with: exact reals next to \<open>NaN\<close> and the
  infinities. It is one instance of the parameter, not the arithmetic of the browser; the
  two agree on the whole amounts used below.
\<close>

fun js_mul :: "jsnum \<Rightarrow> jsnum \<Rightarrow> jsnum" where
  "js_mul NaN y = NaN"
| "js_mul x NaN = NaN"
| "js_mul (Num a) (Num b) = Num (a * b)"
| "js_mul (Num a) PosInfinity = (if a = 0 then NaN else if 0 < a then PosInfinity else NegInfinity)"
| "js_mul (Num a) NegInfinity = (if a = 0 then NaN else if 0 < a then NegInfinity else PosInfinity)"
| "js_mul PosInfinity (Num b) = (if b = 0 then NaN else if 0 < b then PosInfinity else NegInfinity)"
| "js_mul NegInfinity (Num b) = (if b = 0 then NaN else if 0 < b then NegInfinity else PosInfinity)"
| "js_mul PosInfinity PosInfinity = PosInfinity"
| "js_mul NegInfinity NegInfinity = PosInfinity"
| "js_mul PosInfinity NegInfinity = NegInfinity"
| "js_mul NegInfinity PosInfinity = NegInfinity"

definition infinity_sign :: string where
  "infinity_sign = [CHR 0xE2, CHR 0x88, CHR 0x9E]"

definition format_jsnum :: "jsnum \<Rightarrow> string" where
  "format_jsnum x =
     (case x of
        NaN \<Rightarrow> rupee @ ''NaN''
      | Num r \<Rightarrow> formatCurrency r
      | PosInfinity \<Rightarrow> rupee @ infinity_sign
      | NegInfinity \<Rightarrow> ''-'' @ rupee @ infinity_sign)"

definition exact_arith :: "jsnum arith" where
  "exact_arith =
     \<lparr>num_zero = Num 0, num_add = js_add, num_mul = js_mul, num_truthy = js_truthy,
      num_of_int = (\<lambda>k. Num (real_of_int k)), num_of_json = Num,
      num_parseFloat = parseFloat, num_formatCurrency = format_jsnum\<rparr>"

text \<open>The order form at the entry of a handler, for Asha's order of Rice.\<close>

definition asha_order :: "jsnum store" where
  "asha_order =
     (store_init exact_arith)\<lparr>allProducts := [rice], customer_name := ''Asha'',
       order_rows := [\<lparr>data_index = 0, selected = Some rice, quantity_val = ''3'',
                       quantity_disabled = False, quantity_max = Some ''5'',
                       subtotal_text = rupee @ ''150.00''\<rparr>]\<rparr>"

definition over_order :: "jsnum store" where
  "over_order =
     (store_init exact_arith)\<lparr>allProducts := [rice],
       order_rows := [\<lparr>data_index = 0, selected = Some rice, quantity_val = ''8'',
                       quantity_disabled = False, quantity_max = Some ''5'',
                       subtotal_text = rupee @ ''0.00''\<rparr>]\<rparr>"

text \<open>
  Asha's row of three Rice, entered while Rice was in stock, after a later fetch has
  brought Rice with no stock left.
\<close>

definition sold_out_order :: "jsnum store" where
  "sold_out_order =
     (run exact_arith
        [ProductsFetched (HttpOk [rice]), RowEvent AddClick,
         RowEvent (ProductChange 0 (Some rice)), RowEvent (QuantityInput 0 ''3''),
         ProductsFetched (HttpOk [rice_sold])]
        (store_init exact_arith))\<lparr>customer_name := ''Asha''\<rparr>"

definition oil_order :: "jsnum store" where
  "oil_order =
     (store_init exact_arith)\<lparr>allProducts := [oil],
       order_rows := [\<lparr>data_index = 0, selected = Some oil, quantity_val = ''2'',
                       quantity_disabled = False, quantity_max = Some ''4'',
                       subtotal_text = rupee @ ''0.00''\<rparr>]\<rparr>"

section \<open>Evaluating the built-ins on literals\<close>

lemma digit_chars:
  "char_of (48::nat) = CHR ''0''" "char_of (49::nat) = CHR ''1''" "char_of (50::nat) = CHR ''2''"
  "char_of (51::nat) = CHR ''3''" "char_of (52::nat) = CHR ''4''" "char_of (53::nat) = CHR ''5''"
  "char_of (54::nat) = CHR ''6''" "char_of (55::nat) = CHR ''7''" "char_of (56::nat) = CHR ''8''"
  "char_of (57::nat) = CHR ''9''"
  by code_simp+

lemmas format_eval = formatCurrency_def round_paise_def group_indian_def two_digits_def
  show_int_def show_nat.simps digit_chars

lemmas parse_eval = parseInt_def parseFloat_def exponent_part_def js_whitespace_def is_digit_def
  is_hex_digit_def is_upper_def digits_value_def digit_val_def hex_val_def

section \<open>The delete flow of the catalog\<close>

lemma find_id_Some: "p \<in> set ps \<Longrightarrow> \<exists>q. find (\<lambda>x. prod_id x = prod_id p) ps = Some q"
  by (cases "find (\<lambda>x. prod_id x = prod_id p) ps") (auto simp: find_None_iff)

text \<open>
  C10. A product whose id is 0 cannot be deleted through the confirm flow:
  \<open>confirmDeleteProduct(0)\<close> finds the product, stores the id and opens the dialog, but
  \<open>handleConfirmDelete\<close> tests the stored id for truthiness, so confirming leaves the
  whole state as it was and issues no request, whatever the server would have answered.
\<close>

theorem confirm_delete_id_zero_never_deletes:
  assumes "p \<in> set (products m)" and "prod_id p = 0"
  shows "confirm_modal_open (confirmDeleteProduct 0 m)
       \<and> productToDelete (confirmDeleteProduct 0 m) = Some 0
       \<and> handleConfirmDelete del refetch (confirmDeleteProduct 0 m) = confirmDeleteProduct 0 m
       \<and> requests (handleConfirmDelete del refetch (confirmDeleteProduct 0 m)) = requests m"
proof -
  obtain q where q: "find (\<lambda>x. prod_id x = 0) (products m) = Some q"
    using find_id_Some [OF assms(1)] assms(2) by auto
  show ?thesis
    by (simp add: confirmDeleteProduct_def handleConfirmDelete_def q)
qed

theorem confirm_delete_id_zero_witness:
  "salt \<in> set (products (manager_init\<lparr>products := [rice, salt]\<rparr>)) \<and> prod_id salt = 0
   \<and> confirm_modal_open (confirmDeleteProduct 0 (manager_init\<lparr>products := [rice, salt]\<rparr>))
   \<and> requests (handleConfirmDelete (HttpOk ()) (HttpOk [rice])
        (confirmDeleteProduct 0 (manager_init\<lparr>products := [rice, salt]\<rparr>))) = []"
proof -
  have h1: "salt \<in> set (products (manager_init\<lparr>products := [rice, salt]\<rparr>))"
    by simp
  have h2: "prod_id salt = 0"
    by (simp add: salt_def)
  have h3: "requests (manager_init\<lparr>products := [rice, salt]\<rparr>) = []"
    by (simp add: manager_init_def)
  note t = confirm_delete_id_zero_never_deletes [OF h1 h2, of "HttpOk ()" "HttpOk [rice]"]
  from t have c1: "confirm_modal_open (confirmDeleteProduct 0 (manager_init\<lparr>products := [rice, salt]\<rparr>))"
    by blast
  from t have "requests (handleConfirmDelete (HttpOk ()) (HttpOk [rice])
        (confirmDeleteProduct 0 (manager_init\<lparr>products := [rice, salt]\<rparr>)))
      = requests (manager_init\<lparr>products := [rice, salt]\<rparr>)"
    by blast
  with h3 have c2: "requests (handleConfirmDelete (HttpOk ()) (HttpOk [rice])
        (confirmDeleteProduct 0 (manager_init\<lparr>products := [rice, salt]\<rparr>))) = []"
    by simp
  from h1 h2 c1 c2 show ?thesis
    by blast
qed

text \<open>For contrast, an id other than 0 is deleted when the user confirms.\<close>

lemma fetchProducts_pm_requests: "requests (fetchProducts_pm resp m) = requests m @ [GetProducts]"
  by (cases resp)
    (simp_all add: fetchProducts_pm_def showTableLoading_def displayProducts_def showToast_pm_def
      Let_def)

lemma showRowLoading_requests [simp]: "requests (showRowLoading pid b m) = requests m"
  by (simp add: showRowLoading_def split: tbody.splits)

lemma deleteProductById_requests:
  "requests (deleteProductById del refetch pid m) =
     requests m @ [DeleteProduct pid]
       @ (case failure_message ''Failed to delete product'' del of None \<Rightarrow> [GetProducts] | Some msg \<Rightarrow> [])"
  by (simp add: deleteProductById_def Let_def fetchProducts_pm_requests showToast_pm_def
      split: option.splits)

lemma confirm_delete_nonzero_issues_delete:
  assumes "p \<in> set (products m)" and "prod_id p \<noteq> 0"
  shows "DeleteProduct (prod_id p)
           \<in> set (requests (handleConfirmDelete del refetch (confirmDeleteProduct (prod_id p) m)))"
proof -
  obtain q where q: "find (\<lambda>x. prod_id x = prod_id p) (products m) = Some q"
    using find_id_Some [OF assms(1)] by auto
  show ?thesis
    using assms(2)
    by (simp add: confirmDeleteProduct_def handleConfirmDelete_def q deleteProductById_requests)
qed

text \<open>
  For every listed product the dialog opens and nothing is issued before the user
  confirms; after a failed delete call the message is shown and the table is as
  \<open>showRowLoading(productId, true)\<close> left it.
\<close>

lemma confirmDeleteProduct_opens_dialog:
  assumes "p \<in> set (products m)"
  shows "confirm_modal_open (confirmDeleteProduct (prod_id p) m)"
    and "productToDelete (confirmDeleteProduct (prod_id p) m) = Some (prod_id p)"
    and "requests (confirmDeleteProduct (prod_id p) m) = requests m"
proof -
  obtain q where q: "find (\<lambda>x. prod_id x = prod_id p) (products m) = Some q"
    using find_id_Some [OF assms] by auto
  show "confirm_modal_open (confirmDeleteProduct (prod_id p) m)"
    and "productToDelete (confirmDeleteProduct (prod_id p) m) = Some (prod_id p)"
    and "requests (confirmDeleteProduct (prod_id p) m) = requests m"
    by (simp_all add: confirmDeleteProduct_def q)
qed

lemma deleteProductById_failure:
  assumes "failure_message ''Failed to delete product'' del = Some msg"
  shows "toasts (deleteProductById del refetch pid m) = toasts m @ [(msg, Error)]"
    and "table (deleteProductById del refetch pid m) = table (showRowLoading pid True m)"
  using assms
  by (simp_all add: deleteProductById_def Let_def showRowLoading_def showToast_pm_def
      split: tbody.splits)

text \<open>
  C7. The delete is two-step, and a failed delete call is notified; but the row is not
  restored. With Rice (id 1) in the table, \<open>confirmDeleteProduct(1)\<close> opens the dialog
  and issues nothing; confirming issues the DELETE; when the server refuses, the message
  is shown and the button group of the row still holds the spinner, because
  \<open>showRowLoading(productId, false)\<close> does nothing.
\<close>

theorem failed_delete_leaves_spinner:
  "confirm_modal_open (confirmDeleteProduct 1 (fetchProducts_pm (HttpOk [rice]) manager_init))
   \<and> requests (confirmDeleteProduct 1 (fetchProducts_pm (HttpOk [rice]) manager_init)) = [GetProducts]
   \<and> requests (handleConfirmDelete (HttpError (Some ''Product is in use'')) (HttpOk [rice])
        (confirmDeleteProduct 1 (fetchProducts_pm (HttpOk [rice]) manager_init)))
       = [GetProducts, DeleteProduct 1]
   \<and> toasts (handleConfirmDelete (HttpError (Some ''Product is in use'')) (HttpOk [rice])
        (confirmDeleteProduct 1 (fetchProducts_pm (HttpOk [rice]) manager_init)))
       = [(''Product is in use'', Error)]
   \<and> table (handleConfirmDelete (HttpError (Some ''Product is in use'')) (HttpOk [rice])
        (confirmDeleteProduct 1 (fetchProducts_pm (HttpOk [rice]) manager_init)))
       = ProductRows [\<lparr>row_product_id = 1, row_html = product_row_html rice, row_actions = Spinner\<rparr>]"
  by (simp add: handleConfirmDelete_def confirmDeleteProduct_def deleteProductById_def
      showRowLoading_def failure_message_def
      fetchProducts_pm_def showTableLoading_def displayProducts_def showToast_pm_def
      manager_init_def rice_def)

section \<open>Fetching the catalog\<close>

text \<open>
  In every outcome the loading row is replaced; a failed fetch notifies, keeps the product
  list it held and renders that list.
\<close>

lemma fetchProducts_pm_clears_loading: "table (fetchProducts_pm resp m) \<noteq> LoadingRow"
  by (cases resp)
    (simp_all add: fetchProducts_pm_def showTableLoading_def displayProducts_def showToast_pm_def
      Let_def)

lemma fetchProducts_pm_failure:
  assumes "resp = TransportFailure msg \<or> resp = HttpError e"
  shows "toasts (fetchProducts_pm resp m) = toasts m @ [(''Failed to load products'', Error)]"
    and "products (fetchProducts_pm resp m) = products m"
    and "table (fetchProducts_pm resp m) = table (displayProducts m)"
  using assms
  by (auto simp: fetchProducts_pm_def showTableLoading_def displayProducts_def showToast_pm_def
      Let_def)

text \<open>
  C6. A failed fetch notifies and clears the loading row, but it does not render the
  empty state when a product list is held: after a first fetch that brought Rice, a
  second fetch answered with an error status shows the row of Rice again, because
  \<open>displayProducts\<close> ignores the empty list it is passed.
\<close>

theorem fetchProducts_failure_shows_previous_rows:
  "table (fetchProducts_pm (HttpError None) (fetchProducts_pm (HttpOk [rice]) manager_init))
     = ProductRows [\<lparr>row_product_id = 1, row_html = product_row_html rice, row_actions = Buttons\<rparr>]
   \<and> toasts (fetchProducts_pm (HttpError None) (fetchProducts_pm (HttpOk [rice]) manager_init))
     = [(''Failed to load products'', Error)]"
  by (simp add: fetchProducts_pm_def showTableLoading_def displayProducts_def showToast_pm_def
      manager_init_def rice_def)

section \<open>Markup built from products\<close>

text \<open>
  C8. Not every user-supplied string is escaped before it is interpolated. For a product
  named \<open><i>\<close> with unit \<open><b>\<close>, the table row escapes the name but carries the unit
  as it is, and the option built for the order form carries the name as it is in its
  \<open>value\<close> attribute and the unit as it is in \<open>data-unit\<close> and in the label; only the
  name inside the label is escaped.
\<close>

theorem unit_and_option_value_not_escaped:
  \<open>product_row_html tagged =
     '' <tr data-product-id="2"> <td> <strong>&lt;i&gt;</strong> </td>''
     @ '' <td> <span class="label label-default"><b></span> </td>''
     @ '' <td> <strong>'' @ rupee @ ''50.00</strong> </td>''
     @ '' <td class="text-danger"> <i class="fas fa-exclamation-triangle"></i> 5 units </td>''
     @ '' <td> <div class="btn-group" role="group">''
     @ '' <button class="btn btn-sm btn-info" onclick="productManager.editProduct(2)"''
     @ '' title="Edit Product"> <i class="fas fa-edit"></i> </button>''
     @ '' <button class="btn btn-sm btn-danger" onclick="productManager.confirmDeleteProduct(2)"''
     @ '' title="Delete Product"> <i class="fas fa-trash"></i> </button>''
     @ '' </div> </td> </tr> ''
   \<and> generateProductOptions number_text [tagged] =
     ''<option value="">-- Select Product --</option>''
     @ '' <option value="<i>" data-price="'' @ number_text 50
     @ ''" data-stock="5" data-unit="<b>" > &lt;i&gt; - '' @ rupee @ ''50.00/<b> (Stock: 5) </option> ''\<close>
  by (simp add: product_row_html_def generateProductOptions_def product_option_html_def tagged_def
      escapeHtml_def escape_char_def stockClass_def stockIcon_def format_eval)

section \<open>The product form\<close>

lemma validate_name_iff:
  "validate_name m \<longleftrightarrow>
     2 \<le> length (trim (name_val (form m))) \<and> list_all name_char (trim (name_val (form m)))"
  by (auto simp: validate_name_def name_pattern_def Let_def)

lemma validate_unit_iff:
  "validate_unit m \<longleftrightarrow> (\<exists>u. uoms_val (form m) = Some u \<and> u \<noteq> [])"
  by (simp add: validate_unit_def split: option.splits)

lemma validate_price_iff:
  "validate_price m \<longleftrightarrow>
     parseFloat (price_val (form m)) = PosInfinity
     \<or> (\<exists>x. parseFloat (price_val (form m)) = Num x \<and> 0 < x)"
  by (cases "parseFloat (price_val (form m))") (auto simp: validate_price_def)

lemma validate_stock_iff:
  "validate_stock m \<longleftrightarrow> (\<exists>k. parseInt (stock_val (form m)) = Some k \<and> 0 \<le> k)"
  by (simp add: validate_stock_def split: option.splits)

lemma validateForm_fst:
  "fst (validateForm m) \<longleftrightarrow>
     validate_name m \<and> validate_unit m \<and> validate_price m \<and> validate_stock m"
  by (simp add: validateForm_def Let_def)

lemma validateForm_requests: "requests (snd (validateForm m)) = requests m"
  by (simp add: validateForm_def Let_def showFieldError_def)

lemma validateForm_errors:
  "\<not> fst (validateForm m) \<Longrightarrow> field_errors (snd (validateForm m)) \<noteq> []"
  by (auto simp: validateForm_def Let_def showFieldError_def validate_name_def)

lemma handleSaveProduct_invalid:
  "\<not> fst (validateForm m) \<Longrightarrow> handleSaveProduct save refetch m = snd (validateForm m)"
  by (cases "validateForm m") (simp add: handleSaveProduct_def)

text \<open>
  C5, as the code has it. \<open>validateForm\<close> returns true exactly when the trimmed name has
  at least 2 characters, all of them letters, digits, white space (the class \<open>\s\<close>: tab
  and the no-break space as well as the space), hyphen or underscore; a unit is selected;
  the price, as \<open>parseFloat\<close> reads it, is a number above 0; and the stock, as
  \<open>parseInt\<close> reads it, is a number that is at least 0. When it returns false,
  \<open>handleSaveProduct\<close> issues no request and leaves a field error. The boundary values
  (a name of length 2, price 0.01, stock 0) are accepted.
\<close>

theorem validateForm_rules:
  "(fst (validateForm m) \<longleftrightarrow>
      2 \<le> length (trim (name_val (form m))) \<and> list_all name_char (trim (name_val (form m)))
      \<and> (\<exists>u. uoms_val (form m) = Some u \<and> u \<noteq> [])
      \<and> (parseFloat (price_val (form m)) = PosInfinity
           \<or> (\<exists>x. parseFloat (price_val (form m)) = Num x \<and> 0 < x))
      \<and> (\<exists>k. parseInt (stock_val (form m)) = Some k \<and> 0 \<le> k))
   \<and> (\<not> fst (validateForm m) \<longrightarrow>
        requests (handleSaveProduct save refetch m) = requests m
        \<and> field_errors (handleSaveProduct save refetch m) \<noteq> [])
   \<and> fst (validateForm (m\<lparr>form := \<lparr>name_val = ''ab'', uoms_val = Some ''kg'',
                                      price_val = ''0.01'', stock_val = ''0''\<rparr>\<rparr>))"
proof (intro conjI impI)
  show "fst (validateForm m) \<longleftrightarrow>
      2 \<le> length (trim (name_val (form m))) \<and> list_all name_char (trim (name_val (form m)))
      \<and> (\<exists>u. uoms_val (form m) = Some u \<and> u \<noteq> [])
      \<and> (parseFloat (price_val (form m)) = PosInfinity
           \<or> (\<exists>x. parseFloat (price_val (form m)) = Num x \<and> 0 < x))
      \<and> (\<exists>k. parseInt (stock_val (form m)) = Some k \<and> 0 \<le> k)"
    unfolding validateForm_fst validate_name_iff validate_unit_iff validate_price_iff
      validate_stock_iff by blast
next
  assume "\<not> fst (validateForm m)"
  then show "requests (handleSaveProduct save refetch m) = requests m"
    by (simp add: handleSaveProduct_invalid validateForm_requests)
next
  assume "\<not> fst (validateForm m)"
  then show "field_errors (handleSaveProduct save refetch m) \<noteq> []"
    by (simp add: handleSaveProduct_invalid validateForm_errors)
next
  have n: "trim ''ab'' = ''ab''"
    by (simp add: trim_def js_whitespace_def)
  have p: "parseFloat ''0.01'' = Num (1 / 100)"
    by (simp add: parse_eval)
  have k: "parseInt ''0'' = Some 0"
    by (simp add: parse_eval)
  show "fst (validateForm (m\<lparr>form := \<lparr>name_val = ''ab'', uoms_val = Some ''kg'',
                                      price_val = ''0.01'', stock_val = ''0''\<rparr>\<rparr>))"
    by (simp add: validateForm_fst validate_name_def validate_unit_def validate_price_def
        validate_stock_def name_pattern_def name_char_def is_lower_def n p k)
qed

theorem validateForm_rules_witness:
  "\<not> fst (validateForm manager_init)
   \<and> requests (handleSaveProduct (HttpOk ()) (HttpOk []) manager_init) = []
   \<and> field_errors (handleSaveProduct (HttpOk ()) (HttpOk []) manager_init) \<noteq> []"
proof -
  have t: "trim (name_val (form manager_init)) = []"
    by (simp add: manager_init_def trim_def)
  have r: "requests manager_init = []"
    by (simp add: manager_init_def)
  from validateForm_rules [of manager_init "HttpOk ()" "HttpOk []"] t
  have h: "\<not> fst (validateForm manager_init)"
    by simp
  with validateForm_rules [of manager_init "HttpOk ()" "HttpOk []"] r show ?thesis
    by simp
qed

text \<open>
  C5, as stated, fails: a name with a tab inside is accepted although the tab is outside
  \<open>[A-Za-z0-9 _-]\<close>, and the stock \<open>7.5\<close>, which is not an integer, is accepted
  because \<open>parseInt\<close> reads 7.
\<close>

theorem validateForm_counterexample:
  "fst (validateForm (manager_init\<lparr>form := \<lparr>name_val = [CHR ''a'', CHR 0x09, CHR ''b''],
       uoms_val = Some ''kg'', price_val = ''0.01'', stock_val = ''0''\<rparr>\<rparr>))
   \<and> CHR 0x09 \<in> set (trim [CHR ''a'', CHR 0x09, CHR ''b''])
   \<and> CHR 0x09 \<notin> set ''ABCDEFGHIJKLMNOPQRSTUVWXYZabcdefghijklmnopqrstuvwxyz0123456789 _-''
   \<and> fst (validateForm (manager_init\<lparr>form := \<lparr>name_val = ''ab'',
       uoms_val = Some ''kg'', price_val = ''0.01'', stock_val = ''7.5''\<rparr>\<rparr>))
   \<and> parseInt ''7.5'' = Some 7"
  by (simp add: validateForm_def validate_name_def validate_unit_def validate_price_def
      validate_stock_def name_pattern_def name_char_def is_lower_def trim_def parse_eval)

section \<open>The live input handlers\<close>

lemma not_name_ok_nonempty: "\<not> list_all name_char v \<Longrightarrow> v \<noteq> []"
  by auto

lemma not_price_nonempty: "\<not> price_pattern v \<Longrightarrow> v \<noteq> []"
  by (auto simp: price_pattern_def)

text \<open>
  C9, as the code has it. When the value fails the pattern of the name field or of the
  price field, exactly its last character is removed and the rest is unchanged. On the
  stock field every character that is not a digit is removed, wherever it stands, and
  what is left passes the pattern.
\<close>

theorem live_sanitizers:
  "(\<not> list_all name_char v \<longrightarrow> validateNameInput v @ [last v] = v)
   \<and> (\<not> price_pattern v \<longrightarrow> validatePriceInput v @ [last v] = v)
   \<and> (\<not> list_all is_digit v \<longrightarrow>
        validateStockInput v = filter is_digit v \<and> list_all is_digit (validateStockInput v))"
proof (intro conjI impI)
  assume "\<not> list_all name_char v"
  then show "validateNameInput v @ [last v] = v"
    using not_name_ok_nonempty [of v] by (simp add: validateNameInput_def)
next
  assume "\<not> price_pattern v"
  then show "validatePriceInput v @ [last v] = v"
    using not_price_nonempty [of v] by (simp add: validatePriceInput_def)
next
  assume "\<not> list_all is_digit v"
  then show "validateStockInput v = filter is_digit v"
    by (simp add: validateStockInput_def)
next
  show "list_all is_digit (validateStockInput v)"
    by (simp add: validateStockInput_def list_all_iff)
qed

theorem live_sanitizers_witness:
  "\<not> list_all name_char ''1!2'' \<and> \<not> price_pattern ''1!2'' \<and> \<not> list_all is_digit ''1!2''
   \<and> validateNameInput ''1!2'' = ''1!'' \<and> validatePriceInput ''1!2'' = ''1!''
   \<and> validateStockInput ''1!2'' = ''12''"
proof -
  have h1: "\<not> list_all name_char ''1!2''"
    by (simp add: name_char_def is_lower_def is_upper_def is_digit_def js_whitespace_def)
  have h2: "\<not> price_pattern ''1!2''"
    by (simp add: price_pattern_def is_digit_def)
  have h3: "\<not> list_all is_digit ''1!2''"
    by (simp add: is_digit_def)
  have f: "filter is_digit ''1!2'' = ''12''"
    by (simp add: is_digit_def)
  from live_sanitizers [of "''1!2''"] h1 h2 h3 f show ?thesis
    by simp
qed

text \<open>
  C9, as stated, fails on the stock field: typing \<open>a\<close> between the digits of \<open>12\<close>
  gives \<open>1a2\<close>, which the handler turns into \<open>12\<close>, not into \<open>1a\<close>.
\<close>

theorem stock_sanitizer_counterexample:
  "\<not> list_all is_digit ''1a2'' \<and> validateStockInput ''1a2'' = ''12''
   \<and> butlast ''1a2'' = ''1a'' \<and> validateStockInput ''1a2'' \<noteq> butlast ''1a2''"
  by (simp add: validateStockInput_def is_digit_def)


section \<open>Numbers as text\<close>

lemma is_digit_char_of: "(d::nat) < 10 \<Longrightarrow> is_digit (char_of (48 + d))"
  by (simp add: is_digit_def)

lemma digit_val_char_of: "d < 10 \<Longrightarrow> digit_val (char_of (48 + d)) = d"
  by (simp add: digit_val_def)

lemma digits_value_snoc:
  "digits_value radix val (ds @ [c]) = radix * digits_value radix val ds + val c"
  by (simp add: digits_value_def)

lemma show_nat_digits: "list_all is_digit (show_nat n)"
proof (induction n rule: show_nat.induct)
  case (1 n)
  show ?case
  proof (cases "n < 10")
    case True
    then show ?thesis
      by (subst show_nat.simps) (simp add: is_digit_char_of)
  next
    case False
    with 1 show ?thesis
      by (subst show_nat.simps) (simp add: is_digit_char_of)
  qed
qed

lemma show_nat_nonempty: "show_nat n \<noteq> []"
  by (subst show_nat.simps) simp

lemma show_nat_value: "digits_value 10 digit_val (show_nat n) = n"
proof (induction n rule: show_nat.induct)
  case (1 n)
  show ?case
  proof (cases "n < 10")
    case True
    then show ?thesis
      by (subst show_nat.simps) (simp add: digits_value_def digit_val_char_of)
  next
    case False
    with 1 have "digits_value 10 digit_val (show_nat (n div 10)) = n div 10"
      by simp
    with False show ?thesis
      by (subst show_nat.simps) (simp add: digits_value_snoc digit_val_char_of)
  qed
qed

lemma digit_not_ws: "is_digit c \<Longrightarrow> \<not> js_whitespace c"
  by (auto simp: is_digit_def js_whitespace_def)

lemma digit_not_special:
  "is_digit c \<Longrightarrow> c \<noteq> CHR ''-'' \<and> c \<noteq> CHR ''+'' \<and> c \<noteq> CHR ''x''
     \<and> c \<noteq> CHR ''X'' \<and> c \<noteq> CHR ''.'' \<and> c \<noteq> CHR '','' \<and> c \<noteq> CHR ''e'' \<and> c \<noteq> CHR ''E''
     \<and> c \<noteq> CHR ''I'' \<and> c \<noteq> CHR 0xE2"
  by (auto simp: is_digit_def)

lemma takeWhile_all: "list_all P xs \<Longrightarrow> takeWhile P xs = xs"
  by (simp add: list_all_iff)

lemma no_hex_prefix:
  assumes "list_all is_digit ds"
  shows "(take 2 ds = ''0x'' \<or> take 2 ds = ''0X'') = False"
proof (cases ds)
  case Nil
  then show ?thesis by simp
next
  case (Cons c cs)
  show ?thesis
  proof (cases cs)
    case Nil
    with Cons show ?thesis by simp
  next
    case (Cons d rest)
    with assms \<open>ds = c # cs\<close> have "is_digit d" by simp
    with digit_not_special [of d] Cons \<open>ds = c # cs\<close> show ?thesis by simp
  qed
qed

lemma parseInt_digits:
  assumes ne: "ds \<noteq> []" and ds: "list_all is_digit ds"
  shows "parseInt ds = Some (int (digits_value 10 digit_val ds))"
proof -
  from ne ds obtain c cs where eq: "ds = c # cs" and c: "is_digit c"
    by (cases ds) auto
  have t: "dropWhile js_whitespace ds = ds"
    using eq c digit_not_ws by simp
  have sg: "(take 1 ds = ''-'') = False" "(take 1 ds = ''+'') = False"
    using eq c digit_not_special [of c] by simp_all
  have tw: "takeWhile is_digit ds = ds"
    using ds by (rule takeWhile_all)
  have nil: "(ds = []) = False"
    using ne by simp
  show ?thesis
    by (simp only: parseInt_def Let_def t sg no_hex_prefix [OF ds] tw nil if_False simp_thms)
      simp
qed

lemma parseInt_minus_digits:
  assumes ne: "ds \<noteq> []" and ds: "list_all is_digit ds"
  shows "parseInt (CHR ''-'' # ds) = Some (- int (digits_value 10 digit_val ds))"
proof -
  have t: "dropWhile js_whitespace (CHR ''-'' # ds) = CHR ''-'' # ds"
    by (simp add: js_whitespace_def)
  have sg: "(take 1 (CHR ''-'' # ds) = ''-'') = True" "drop 1 (CHR ''-'' # ds) = ds"
    by simp_all
  have tw: "takeWhile is_digit ds = ds"
    using ds by (rule takeWhile_all)
  have nil: "(ds = []) = False"
    using ne by simp
  show ?thesis
    by (simp only: parseInt_def Let_def t sg no_hex_prefix [OF ds] tw nil if_False if_True simp_thms)
      simp
qed

lemma parseInt_show_int: "parseInt (show_int k) = Some k"
proof (cases "k < 0")
  case True
  then show ?thesis
    by (simp add: show_int_def parseInt_minus_digits show_nat_nonempty show_nat_digits show_nat_value)
next
  case False
  then show ?thesis
    by (simp add: show_int_def parseInt_digits show_nat_nonempty show_nat_digits show_nat_value)
qed

section \<open>What each handler of the order form leaves\<close>

lemma showToast_gs_simps [simp]:
  "calls (showToast_gs msg ty s) = calls s"
  "notices (showToast_gs msg ty s) = notices s @ [(msg, ty)]"
  "order_rows (showToast_gs msg ty s) = order_rows s"
  "allProducts (showToast_gs msg ty s) = allProducts s"
  "orderTotal (showToast_gs msg ty s) = orderTotal s"
  "customer_name (showToast_gs msg ty s) = customer_name s"
  by (simp_all add: showToast_gs_def)

lemma updateOrderTotal_simps [simp]:
  "calls (updateOrderTotal A s) = calls s"
  "notices (updateOrderTotal A s) = notices s"
  "order_rows (updateOrderTotal A s) = order_rows s"
  "allProducts (updateOrderTotal A s) = allProducts s"
  "customer_name (updateOrderTotal A s) = customer_name s"
  by (simp_all add: updateOrderTotal_def)

lemma addProductRow_rows:
  "order_rows (addProductRow A s) =
     (if allProducts s = [] then order_rows s
      else order_rows s @ [new_row (length (order_rows s))])"
  by (simp add: addProductRow_def)

lemma addProductRow_notices:
  "notices (addProductRow A s) =
     (if allProducts s = [] then
        notices s @ [(''No products available. Please add products first.'', Error)]
      else notices s)"
  by (simp add: addProductRow_def)

lemma addProductRow_calls [simp]: "calls (addProductRow A s) = calls s"
  by (simp add: addProductRow_def)

lemma addProductRow_allProducts [simp]: "allProducts (addProductRow A s) = allProducts s"
  by (simp add: addProductRow_def)

lemma calculateRowSubtotal_rows:
  "order_rows (calculateRowSubtotal A i s) =
     (order_rows s)
       [i := (order_rows s ! i)
               \<lparr>subtotal_text := num_formatCurrency A (row_subtotal A (order_rows s ! i))\<rparr>]"
  by (simp add: calculateRowSubtotal_def)

lemma calculateRowSubtotal_simps [simp]:
  "notices (calculateRowSubtotal A i s) = notices s"
  "calls (calculateRowSubtotal A i s) = calls s"
  "allProducts (calculateRowSubtotal A i s) = allProducts s"
  by (simp_all add: calculateRowSubtotal_def)

lemma handleProductChange_rows:
  "order_rows (handleProductChange A i s) =
     (let r = order_rows s ! i;
          r' = (case selected r of
                  None \<Rightarrow> r\<lparr>quantity_val := [], quantity_disabled := True, quantity_max := None\<rparr>
                | Some p \<Rightarrow>
                    if prod_name p = [] then
                      r\<lparr>quantity_val := [], quantity_disabled := True, quantity_max := None\<rparr>
                    else if prod_stock p = 0 then
                      r\<lparr>quantity_max := Some (show_int (prod_stock p)), quantity_val := [],
                        quantity_disabled := True\<rparr>
                    else r\<lparr>quantity_max := Some (show_int (prod_stock p)), quantity_disabled := False\<rparr>)
      in (order_rows s)[i := r'\<lparr>subtotal_text := num_formatCurrency A (row_subtotal A r')\<rparr>])"
  if "i < length (order_rows s)"
  using that
  by (auto simp: handleProductChange_def Let_def option_val_def calculateRowSubtotal_rows
      split: option.splits)

lemma handleQuantityChange_rows:
  "order_rows (handleQuantityChange A i s) =
     (let r = order_rows s ! i;
          r' = (case max_attr r of
                  None \<Rightarrow> r
                | Some b \<Rightarrow>
                    (case parseInt (quantity_val r) of
                       None \<Rightarrow> r
                     | Some q \<Rightarrow> if q > b then r\<lparr>quantity_val := show_int b\<rparr> else r))
      in (order_rows s)[i := r'\<lparr>subtotal_text := num_formatCurrency A (row_subtotal A r')\<rparr>])"
  if "i < length (order_rows s)"
  using that
  by (auto simp: handleQuantityChange_def Let_def calculateRowSubtotal_rows split: option.splits)

lemma handleProductChange_simps [simp]:
  "allProducts (handleProductChange A i s) = allProducts s"
  "calls (handleProductChange A i s) = calls s"
  by (auto simp: handleProductChange_def Let_def split: option.splits)

lemma handleQuantityChange_simps [simp]:
  "allProducts (handleQuantityChange A i s) = allProducts s"
  "calls (handleQuantityChange A i s) = calls s"
  by (auto simp: handleQuantityChange_def Let_def split: option.splits)

lemma handleProductChange_notices:
  "notices (handleProductChange A i s) =
     (case selected (order_rows s ! i) of
        None \<Rightarrow> notices s
      | Some p \<Rightarrow>
          if prod_name p \<noteq> [] \<and> prod_stock p = 0 then
            notices s @ [(''Selected product is out of stock'', Error)]
          else notices s)"
  by (auto simp: handleProductChange_def Let_def option_val_def split: option.splits)

lemma handleQuantityChange_notices:
  "notices (handleQuantityChange A i s) =
     (case max_attr (order_rows s ! i) of
        None \<Rightarrow> notices s
      | Some b \<Rightarrow>
          (case parseInt (quantity_val (order_rows s ! i)) of
             None \<Rightarrow> notices s
           | Some q \<Rightarrow>
               if q > b then notices s @ [(''Maximum available quantity is '' @ show_int b, Info)]
               else notices s))"
  by (auto simp: handleQuantityChange_def Let_def split: option.splits)

lemma fetchProducts_gs_ok [simp]:
  "order_rows (fetchProducts_gs (HttpOk ps) s) = map (reselect ps) (order_rows s)"
  "allProducts (fetchProducts_gs (HttpOk ps) s) = ps"
  "notices (fetchProducts_gs (HttpOk ps) s) = notices s"
  by (simp_all add: fetchProducts_gs_def updateProductSelects_def)

lemma fetchProducts_gs_calls [simp]: "calls (fetchProducts_gs resp s) = calls s @ [GetProducts]"
  by (cases resp) (simp_all add: fetchProducts_gs_def updateProductSelects_def)

lemma run_Cons: "run A (e # es) s = run A es (step A e s)"
  by (simp add: run_def)

lemma run_Nil: "run A [] s = s"
  by (simp add: run_def)

lemma run_snoc: "run A (es @ [e]) s = step A e (run A es s)"
  by (simp add: run_def)

lemma store_init_simps [simp]:
  "allProducts (store_init A) = []"
  "orderTotal (store_init A) = num_zero A"
  "order_rows (store_init A) = []"
  "customer_name (store_init A) = []"
  "notices (store_init A) = []"
  "calls (store_init A) = []"
  by (simp_all add: store_init_def)

text \<open>The row of three Rice, step by step, in any arithmetic.\<close>

lemma rice_row_entered:
  "length (order_rows (run A [ProductsFetched (HttpOk [rice]), RowEvent AddClick,
       RowEvent (ProductChange 0 (Some rice)), RowEvent (QuantityInput 0 ''3'')] (store_init A))) = 1
   \<and> selected (order_rows (run A [ProductsFetched (HttpOk [rice]), RowEvent AddClick,
       RowEvent (ProductChange 0 (Some rice)), RowEvent (QuantityInput 0 ''3'')] (store_init A)) ! 0)
       = Some rice
   \<and> quantity_val (order_rows (run A [ProductsFetched (HttpOk [rice]), RowEvent AddClick,
       RowEvent (ProductChange 0 (Some rice)), RowEvent (QuantityInput 0 ''3'')] (store_init A)) ! 0)
       = ''3''
   \<and> notices (run A [ProductsFetched (HttpOk [rice]), RowEvent AddClick,
       RowEvent (ProductChange 0 (Some rice)), RowEvent (QuantityInput 0 ''3'')] (store_init A)) = []
   \<and> calls (run A [ProductsFetched (HttpOk [rice]), RowEvent AddClick,
       RowEvent (ProductChange 0 (Some rice)), RowEvent (QuantityInput 0 ''3'')] (store_init A))
       = [GetProducts]"
proof -
  have q3: "parseInt ''3'' = Some 3"
    by (simp add: parse_eval)
  define s1 where "s1 = run A [ProductsFetched (HttpOk [rice]), RowEvent AddClick] (store_init A)"
  have r1: "order_rows s1 = [new_row 0] \<and> notices s1 = [] \<and> calls s1 = [GetProducts]"
    by (simp add: s1_def run_Cons run_Nil step_def row_step_def addProductRow_rows
        addProductRow_notices)
  define s2 where "s2 = step A (RowEvent (ProductChange 0 (Some rice))) s1"
  have r2: "length (order_rows s2) = 1 \<and> selected (order_rows s2 ! 0) = Some rice
      \<and> \<not> quantity_disabled (order_rows s2 ! 0)
      \<and> quantity_max (order_rows s2 ! 0) = Some (show_int 5)
      \<and> notices s2 = [] \<and> calls s2 = [GetProducts]"
    using r1
    by (simp add: s2_def step_def row_step_def handleProductChange_rows handleProductChange_notices
        new_row_def rice_def Let_def)
  define s3 where "s3 = step A (RowEvent (QuantityInput 0 ''3'')) s2"
  have r3: "length (order_rows s3) = 1 \<and> selected (order_rows s3 ! 0) = Some rice
      \<and> quantity_val (order_rows s3 ! 0) = ''3'' \<and> notices s3 = [] \<and> calls s3 = [GetProducts]"
    using r2
    by (simp add: s3_def step_def row_step_def handleQuantityChange_rows handleQuantityChange_notices
        max_attr_def parseInt_show_int q3 Let_def)
  have "run A [ProductsFetched (HttpOk [rice]), RowEvent AddClick,
       RowEvent (ProductChange 0 (Some rice)), RowEvent (QuantityInput 0 ''3'')] (store_init A) = s3"
    by (simp add: s3_def s2_def s1_def run_def)
  with r3 show ?thesis
    by simp
qed

section \<open>Submitting an order\<close>

lemma addFirstProductRow_calls [simp]: "calls (addFirstProductRow A s) = calls s"
  by (simp add: addFirstProductRow_def)

lemma resetOrderForm_calls [simp]: "calls (resetOrderForm A s) = calls s"
  by (simp add: resetOrderForm_def)

lemma refreshData_calls [simp]:
  "calls (refreshData rr s) = calls s @ [GetProducts, GetOrders, GetStats]"
  by (simp add: refreshData_def loadInitialData_def fetchStats_def fetchOrders_def Let_def)

lemma select_val_Some:
  "select_val r = Some n \<and> n \<noteq> [] \<longleftrightarrow>
     (\<exists>p. selected r = Some p \<and> 0 < prod_stock p \<and> prod_name p = n) \<and> n \<noteq> []"
  by (auto simp: select_val_def split: option.splits if_splits)

lemma row_item_names:
  "row_item r = Some (n, q) \<Longrightarrow>
     n = option_val r \<and> q = (case parseInt (quantity_val r) of None \<Rightarrow> 0 | Some k \<Rightarrow> k)"
  by (auto simp: row_item_def select_val_def option_val_def split: option.splits if_splits)

lemma row_item_None:
  "row_item r \<noteq> None \<longleftrightarrow>
     (\<exists>p. selected r = Some p \<and> prod_name p \<noteq> [] \<and> 0 < prod_stock p)
     \<and> (\<exists>q. parseInt (quantity_val r) = Some q \<and> 0 < q)"
  by (auto simp: row_item_def select_val_def split: option.splits if_splits)

lemma the_row_item:
  "row_item r \<noteq> None \<Longrightarrow>
     the (row_item r)
       = (option_val r, case parseInt (quantity_val r) of None \<Rightarrow> 0 | Some k \<Rightarrow> k)"
  using row_item_names [of r] by (cases "row_item r") auto

lemma collect_items_filter:
  "collect_items rs =
     map (\<lambda>r. (option_val r, case parseInt (quantity_val r) of None \<Rightarrow> 0 | Some k \<Rightarrow> k))
       (filter (\<lambda>r. (\<exists>p. selected r = Some p \<and> prod_name p \<noteq> [] \<and> 0 < prod_stock p)
                  \<and> (\<exists>q. parseInt (quantity_val r) = Some q \<and> 0 < q)) rs)"
proof -
  have "collect_items rs = map (the \<circ> row_item) (filter (\<lambda>r. row_item r \<noteq> None) rs)"
    by (simp add: collect_items_def List.map_filter_def)
  also have "\<dots> = map (\<lambda>r. (option_val r, case parseInt (quantity_val r) of None \<Rightarrow> 0 | Some k \<Rightarrow> k))
                     (filter (\<lambda>r. row_item r \<noteq> None) rs)"
    by (rule map_cong) (auto simp: the_row_item)
  finally show ?thesis
    by (simp only: row_item_None)
qed

lemma handleOrderSubmit_no_name:
  "trim (customer_name s) = [] \<Longrightarrow>
     handleOrderSubmit A submit rr s = showToast_gs ''Please enter customer name'' Error s"
  by (simp add: handleOrderSubmit_def)

lemma handleOrderSubmit_no_items:
  "trim (customer_name s) \<noteq> [] \<Longrightarrow> collect_items (order_rows s) = [] \<Longrightarrow>
     handleOrderSubmit A submit rr s
       = showToast_gs ''Please add at least one product to the order'' Error s"
  by (simp add: handleOrderSubmit_def)

lemma handleOrderSubmit_calls:
  "trim (customer_name s) \<noteq> [] \<Longrightarrow> collect_items (order_rows s) \<noteq> [] \<Longrightarrow>
     calls (handleOrderSubmit A submit rr s)
       = calls s @ [CreateOrder (trim (customer_name s)) (collect_items (order_rows s))]
           @ (case submit of HttpOk n \<Rightarrow> [GetProducts, GetOrders, GetStats] | _ \<Rightarrow> [])"
  by (cases submit) (simp_all add: handleOrderSubmit_def Let_def showLoadingModal_def)

text \<open>
  C4, as the code has it. Call a row \<^emph>\<open>orderable\<close> when the product selected in it has a
  name and stock above 0 (the option of a product without stock is disabled, and jQuery
  reads a select whose selected option is disabled as \<open>null\<close>) and \<open>parseInt\<close> reads an
  integer above 0 at the head of its quantity. \<open>handleOrderSubmit\<close> stops with a
  notification and without any call when the trimmed customer name is empty, and when no
  row is orderable. Otherwise the first call it issues is the POST of the order, whose
  items are exactly the orderable rows, in their order, each with the name of its product
  and the integer read from its quantity (quantities up to \<open>2 ^ 53\<close>, which a number
  carries exactly); the three GETs of the refresh follow when the POST succeeds.
\<close>

theorem handleOrderSubmit_items:
  fixes A :: "'n arith" and s :: "'n store"
  defines "orderable \<equiv> \<lambda>r.
      (\<exists>p. selected r = Some p \<and> prod_name p \<noteq> [] \<and> 0 < prod_stock p)
      \<and> (\<exists>q. parseInt (quantity_val r) = Some q \<and> 0 < q)"
  shows
  "(trim (customer_name s) = [] \<longrightarrow>
      calls (handleOrderSubmit A submit rr s) = calls s
      \<and> notices (handleOrderSubmit A submit rr s)
          = notices s @ [(''Please enter customer name'', Error)])
   \<and> (trim (customer_name s) \<noteq> [] \<and> filter orderable (order_rows s) = [] \<longrightarrow>
      calls (handleOrderSubmit A submit rr s) = calls s
      \<and> notices (handleOrderSubmit A submit rr s)
          = notices s @ [(''Please add at least one product to the order'', Error)])
   \<and> (trim (customer_name s) \<noteq> [] \<and> filter orderable (order_rows s) \<noteq> []
       \<and> (\<forall>r \<in> set (order_rows s). \<forall>q. parseInt (quantity_val r) = Some q \<longrightarrow> q \<le> 2 ^ 53) \<longrightarrow>
      calls (handleOrderSubmit A submit rr s)
        = calls s
          @ [CreateOrder (trim (customer_name s))
               (map (\<lambda>r. (option_val r,
                           case parseInt (quantity_val r) of None \<Rightarrow> 0 | Some q \<Rightarrow> q))
                  (filter orderable (order_rows s)))]
          @ (case submit of HttpOk n \<Rightarrow> [GetProducts, GetOrders, GetStats] | _ \<Rightarrow> []))"
proof (intro conjI impI)
  assume "trim (customer_name s) = []"
  then show "calls (handleOrderSubmit A submit rr s) = calls s"
    and "notices (handleOrderSubmit A submit rr s)
          = notices s @ [(''Please enter customer name'', Error)]"
    by (simp_all add: handleOrderSubmit_no_name)
next
  assume a: "trim (customer_name s) \<noteq> [] \<and> filter orderable (order_rows s) = []"
  then have "collect_items (order_rows s) = []"
    by (simp add: collect_items_filter orderable_def)
  with a show "calls (handleOrderSubmit A submit rr s) = calls s"
    and "notices (handleOrderSubmit A submit rr s)
          = notices s @ [(''Please add at least one product to the order'', Error)]"
    by (simp_all add: handleOrderSubmit_no_items)
next
  assume a: "trim (customer_name s) \<noteq> [] \<and> filter orderable (order_rows s) \<noteq> []
       \<and> (\<forall>r \<in> set (order_rows s). \<forall>q. parseInt (quantity_val r) = Some q \<longrightarrow> q \<le> 2 ^ 53)"
  then have n: "trim (customer_name s) \<noteq> []" and "filter orderable (order_rows s) \<noteq> []"
    by blast+
  then have "collect_items (order_rows s) \<noteq> []"
    by (simp add: collect_items_filter orderable_def)
  from handleOrderSubmit_calls [OF n this, of A submit rr]
  show "calls (handleOrderSubmit A submit rr s)
        = calls s
          @ [CreateOrder (trim (customer_name s))
               (map (\<lambda>r. (option_val r,
                           case parseInt (quantity_val r) of None \<Rightarrow> 0 | Some q \<Rightarrow> q))
                  (filter orderable (order_rows s)))]
          @ (case submit of HttpOk n \<Rightarrow> [GetProducts, GetOrders, GetStats] | _ \<Rightarrow> [])"
    by (simp add: collect_items_filter orderable_def)
qed

theorem handleOrderSubmit_items_witness:
  "trim (customer_name (store_init exact_arith)) = []
   \<and> calls (handleOrderSubmit exact_arith (HttpOk ''ORD-1'') all_ok (store_init exact_arith)) = []
   \<and> notices (handleOrderSubmit exact_arith (HttpOk ''ORD-1'') all_ok (store_init exact_arith))
       = [(''Please enter customer name'', Error)]
   \<and> calls (handleOrderSubmit exact_arith (HttpOk ''ORD-1'') all_ok
        ((store_init exact_arith)\<lparr>customer_name := ''Asha''\<rparr>)) = []
   \<and> notices (handleOrderSubmit exact_arith (HttpOk ''ORD-1'') all_ok
        ((store_init exact_arith)\<lparr>customer_name := ''Asha''\<rparr>))
       = [(''Please add at least one product to the order'', Error)]
   \<and> calls (handleOrderSubmit exact_arith (HttpOk ''ORD-1'') all_ok asha_order)
       = [CreateOrder ''Asha'' [(''Rice'', 3)], GetProducts, GetOrders, GetStats]"
proof -
  have t0: "trim (customer_name (store_init exact_arith)) = []"
    by (simp add: trim_def)
  have t1: "trim (customer_name ((store_init exact_arith)\<lparr>customer_name := ''Asha''\<rparr>)) = ''Asha''"
    by (simp add: trim_def js_whitespace_def)
  have t2: "trim (customer_name asha_order) = ''Asha''"
    by (simp add: asha_order_def trim_def js_whitespace_def)
  have q: "parseInt ''3'' = Some 3"
    by (simp add: parse_eval)
  have a: "calls asha_order = []"
    by (simp add: asha_order_def)
  have r: "order_rows asha_order =
      [\<lparr>data_index = 0, selected = Some rice, quantity_val = ''3'',
        quantity_disabled = False, quantity_max = Some ''5'', subtotal_text = rupee @ ''150.00''\<rparr>]"
    by (simp add: asha_order_def)
  have c0: "calls (handleOrderSubmit exact_arith (HttpOk ''ORD-1'') all_ok (store_init exact_arith)) = []
      \<and> notices (handleOrderSubmit exact_arith (HttpOk ''ORD-1'') all_ok (store_init exact_arith))
          = [(''Please enter customer name'', Error)]"
    using handleOrderSubmit_items
      [where A = exact_arith and s = "store_init exact_arith" and submit = "HttpOk ''ORD-1''"
         and rr = all_ok] t0
    by simp
  have c1: "calls (handleOrderSubmit exact_arith (HttpOk ''ORD-1'') all_ok
        ((store_init exact_arith)\<lparr>customer_name := ''Asha''\<rparr>)) = []
      \<and> notices (handleOrderSubmit exact_arith (HttpOk ''ORD-1'') all_ok
        ((store_init exact_arith)\<lparr>customer_name := ''Asha''\<rparr>))
          = [(''Please add at least one product to the order'', Error)]"
    using handleOrderSubmit_items
      [where A = exact_arith and s = "(store_init exact_arith)\<lparr>customer_name := ''Asha''\<rparr>"
         and submit = "HttpOk ''ORD-1''" and rr = all_ok] t1
    by simp
  have c2: "calls (handleOrderSubmit exact_arith (HttpOk ''ORD-1'') all_ok asha_order)
       = [CreateOrder ''Asha'' [(''Rice'', 3)], GetProducts, GetOrders, GetStats]"
    using handleOrderSubmit_items
      [where A = exact_arith and s = asha_order and submit = "HttpOk ''ORD-1''" and rr = all_ok]
      t2 a
    by (simp add: r q option_val_def rice_def)
  from t0 c0 c1 c2 show ?thesis
    by blast
qed

text \<open>
  C4, as stated, fails. Asha's row has Rice selected and the quantity 3, entered while
  Rice was in stock. A refresh then brings Rice with stock 0: the select keeps Rice
  selected, but its option is now disabled, so the select reads as \<open>null\<close>. The row has a
  selected product and a quantity above 0, yet the submission stops with the notification
  and posts nothing.
\<close>

theorem handleOrderSubmit_sold_out_counterexample:
  "length (order_rows sold_out_order) = 1
   \<and> selected (order_rows sold_out_order ! 0) = Some rice_sold
   \<and> quantity_val (order_rows sold_out_order ! 0) = ''3''
   \<and> parseInt ''3'' = Some 3
   \<and> trim (customer_name sold_out_order) = ''Asha''
   \<and> calls sold_out_order = [GetProducts, GetProducts]
   \<and> calls (handleOrderSubmit exact_arith (HttpOk ''ORD-1'') all_ok sold_out_order)
       = [GetProducts, GetProducts]
   \<and> notices (handleOrderSubmit exact_arith (HttpOk ''ORD-1'') all_ok sold_out_order)
       = [(''Please add at least one product to the order'', Error)]"
proof -
  have q3: "parseInt ''3'' = Some 3"
    by (simp add: parse_eval)
  define s3 where "s3 = run exact_arith [ProductsFetched (HttpOk [rice]), RowEvent AddClick,
       RowEvent (ProductChange 0 (Some rice)), RowEvent (QuantityInput 0 ''3'')]
       (store_init exact_arith)"
  from rice_row_entered [of exact_arith]
  have r3: "length (order_rows s3) = 1 \<and> selected (order_rows s3 ! 0) = Some rice
      \<and> quantity_val (order_rows s3 ! 0) = ''3'' \<and> notices s3 = [] \<and> calls s3 = [GetProducts]"
    unfolding s3_def by blast
  then have one: "order_rows s3 = [order_rows s3 ! 0]"
    by (cases "order_rows s3") simp_all
  have so: "sold_out_order
      = (fetchProducts_gs (HttpOk [rice_sold]) s3)\<lparr>customer_name := ''Asha''\<rparr>"
    by (simp add: sold_out_order_def s3_def run_def step_def)
  have sel: "reselect [rice_sold] (order_rows s3 ! 0) = (order_rows s3 ! 0)\<lparr>selected := Some rice_sold\<rparr>"
    using r3 by (simp add: reselect_def select_val_def rice_def rice_sold_def)
  have rows: "order_rows sold_out_order = [(order_rows s3 ! 0)\<lparr>selected := Some rice_sold\<rparr>]"
    by (subst so, simp, subst one, simp add: sel)
  have item: "collect_items (order_rows sold_out_order) = []"
    by (simp add: rows collect_items_def List.map_filter_def row_item_def select_val_def rice_sold_def)
  have name: "trim (customer_name sold_out_order) = ''Asha''"
    by (simp add: so trim_def js_whitespace_def)
  have c: "calls sold_out_order = [GetProducts, GetProducts]"
    and n: "notices sold_out_order = []"
    using r3 by (simp_all add: so)
  have sub: "handleOrderSubmit exact_arith (HttpOk ''ORD-1'') all_ok sold_out_order
      = showToast_gs ''Please add at least one product to the order'' Error sold_out_order"
    using name item by (simp add: handleOrderSubmit_no_items)
  from r3 rows q3 name c n sub show ?thesis
    by simp
qed

section \<open>Rows of the order form\<close>

text \<open>
  While the product list is not empty, a removal leaves a row: the fresh one when the
  removed row was the only one, the remaining ones otherwise.
\<close>

lemma removeProductRow_with_products:
  assumes "i < length (order_rows s)" and "allProducts s \<noteq> []"
  shows "order_rows (removeProductRow A i s) \<noteq> []"
    and "remove_nth i (order_rows s) = [] \<Longrightarrow> order_rows (removeProductRow A i s) = [new_row 0]"
    and "remove_nth i (order_rows s) \<noteq> [] \<Longrightarrow>
           order_rows (removeProductRow A i s) = remove_nth i (order_rows s)"
  using assms by (simp_all add: removeProductRow_def Let_def addProductRow_rows)

text \<open>
  C1. The callback of \<open>removeProductRow\<close> says \<open>// Ensure at least one product row exists\<close>
  and calls \<open>addProductRow\<close> when no row is left, but \<open>addProductRow\<close> returns without a
  row while the product list is empty. A row is added while Rice is in the list, a later
  fetch brings the empty list, and the removal of that row then leaves no row at all,
  with the notification of \<open>addProductRow\<close>; this holds in every arithmetic.
\<close>

theorem removeProductRow_leaves_no_row:
  "order_rows (run A [ProductsFetched (HttpOk [rice]), RowEvent AddClick,
       ProductsFetched (HttpOk [])] (store_init A)) = [new_row 0]
   \<and> allProducts (run A [ProductsFetched (HttpOk [rice]), RowEvent AddClick,
       ProductsFetched (HttpOk [])] (store_init A)) = []
   \<and> order_rows (run A [ProductsFetched (HttpOk [rice]), RowEvent AddClick,
       ProductsFetched (HttpOk []), RowEvent (RemoveClick 0)] (store_init A)) = []
   \<and> notices (run A [ProductsFetched (HttpOk [rice]), RowEvent AddClick,
       ProductsFetched (HttpOk []), RowEvent (RemoveClick 0)] (store_init A))
      = [(''No products available. Please add products first.'', Error)]"
  by (simp add: run_Cons run_Nil step_def row_step_def reselect_def select_val_def new_row_def
      addProductRow_def removeProductRow_def remove_nth_def Let_def)

section \<open>Quantity and stock\<close>

lemma handleQuantityChange_clamps:
  assumes i: "i < length (order_rows s)"
    and b: "max_attr (order_rows s ! i) = Some b"
    and q: "parseInt (quantity_val (order_rows s ! i)) = Some q"
    and gt: "b < q"
  shows "quantity_val (order_rows (handleQuantityChange A i s) ! i) = show_int b"
    and "notices (handleQuantityChange A i s)
           = notices s @ [(''Maximum available quantity is '' @ show_int b, Info)]"
  using assms by (simp_all add: handleQuantityChange_rows handleQuantityChange_notices Let_def)

lemma handleQuantityChange_keeps:
  assumes i: "i < length (order_rows s)"
    and b: "max_attr (order_rows s ! i) = Some b"
    and q: "parseInt (quantity_val (order_rows s ! i)) = Some q"
    and le: "q \<le> b"
  shows "quantity_val (order_rows (handleQuantityChange A i s) ! i) = quantity_val (order_rows s ! i)"
    and "notices (handleQuantityChange A i s) = notices s"
  using assms by (simp_all add: handleQuantityChange_rows handleQuantityChange_notices Let_def)

lemma handleQuantityChange_unread:
  assumes i: "i < length (order_rows s)"
    and n: "max_attr (order_rows s ! i) = None \<or> parseInt (quantity_val (order_rows s ! i)) = None"
  shows "quantity_val (order_rows (handleQuantityChange A i s) ! i) = quantity_val (order_rows s ! i)"
    and "notices (handleQuantityChange A i s) = notices s"
  using assms
  by (auto simp: handleQuantityChange_rows handleQuantityChange_notices Let_def split: option.splits)

lemma handleQuantityChange_bounded:
  assumes i: "i < length (order_rows s)"
    and b: "max_attr (order_rows s ! i) = Some b"
    and q: "parseInt (quantity_val (order_rows s ! i)) = Some q"
  shows "\<exists>q'. parseInt (quantity_val (order_rows (handleQuantityChange A i s) ! i)) = Some q' \<and> q' \<le> b"
proof (cases "b < q")
  case True
  with handleQuantityChange_clamps(1) [OF i b q] show ?thesis
    by (simp add: parseInt_show_int)
next
  case False
  then have "q \<le> b" by simp
  with handleQuantityChange_keeps(1) [OF i b q] q show ?thesis
    by simp
qed

lemma handleProductChange_out_of_stock:
  assumes i: "i < length (order_rows s)"
    and p: "selected (order_rows s ! i) = Some p"
    and n: "prod_name p \<noteq> []"
    and z: "prod_stock p = 0"
  shows "quantity_val (order_rows (handleProductChange A i s) ! i) = []"
    and "quantity_disabled (order_rows (handleProductChange A i s) ! i)"
    and "notices (handleProductChange A i s) = notices s @ [(''Selected product is out of stock'', Error)]"
  using assms by (simp_all add: handleProductChange_rows handleProductChange_notices Let_def)

lemma handleProductChange_in_stock:
  assumes i: "i < length (order_rows s)"
    and p: "selected (order_rows s ! i) = Some p"
    and n: "prod_name p \<noteq> []"
    and z: "prod_stock p \<noteq> 0"
  shows "max_attr (order_rows (handleProductChange A i s) ! i) = Some (prod_stock p)"
    and "quantity_val (order_rows (handleProductChange A i s) ! i) = quantity_val (order_rows s ! i)"
    and "\<not> quantity_disabled (order_rows (handleProductChange A i s) ! i)"
    and "notices (handleProductChange A i s) = notices s"
  using assms
  by (simp_all add: handleProductChange_rows handleProductChange_notices Let_def max_attr_def
      parseInt_show_int)

text \<open>
  C3, as the code has it. \<open>handleQuantityChange\<close> compares two integers: the one \<open>parseInt\<close>
  reads at the head of the text in the quantity input and the one it reads from the \<open>max\<close>
  attribute of the input, the bound of the row. When the first exceeds the second, the
  bound is put into the input and notified; the entry is never rejected. When it does
  not, and when either text gives no integer, the input keeps the text as typed and
  nothing is notified. After the handler the integer read from the input is at most the
  bound whenever both are integers. \<open>handleProductChange\<close> on a named product with stock 0
  clears and disables the input and notifies; on one with any other stock it sets the
  bound to that stock and leaves the text that was entered as it is. Bounds,
  quantities and stocks are taken up to \<open>2 ^ 53\<close> in magnitude, the integers a number
  carries exactly.
\<close>

theorem quantity_clamped_to_row_bound:
  assumes "i < length (order_rows s)"
  shows
  "(max_attr (order_rows s ! i) = Some b \<and> parseInt (quantity_val (order_rows s ! i)) = Some q
      \<and> \<bar>b\<bar> \<le> 2 ^ 53 \<and> \<bar>q\<bar> \<le> 2 ^ 53 \<longrightarrow>
      (b < q \<longrightarrow>
         quantity_val (order_rows (handleQuantityChange A i s) ! i) = show_int b
         \<and> parseInt (quantity_val (order_rows (handleQuantityChange A i s) ! i)) = Some b
         \<and> notices (handleQuantityChange A i s)
             = notices s @ [(''Maximum available quantity is '' @ show_int b, Info)])
      \<and> (q \<le> b \<longrightarrow>
         quantity_val (order_rows (handleQuantityChange A i s) ! i) = quantity_val (order_rows s ! i)
         \<and> notices (handleQuantityChange A i s) = notices s)
      \<and> (\<exists>q'. parseInt (quantity_val (order_rows (handleQuantityChange A i s) ! i)) = Some q'
               \<and> q' \<le> b))
   \<and> (max_attr (order_rows s ! i) = None \<or> parseInt (quantity_val (order_rows s ! i)) = None \<longrightarrow>
        quantity_val (order_rows (handleQuantityChange A i s) ! i) = quantity_val (order_rows s ! i)
        \<and> notices (handleQuantityChange A i s) = notices s)
   \<and> (selected (order_rows s ! i) = Some p \<and> prod_name p \<noteq> [] \<and> prod_stock p = 0 \<longrightarrow>
        quantity_val (order_rows (handleProductChange A i s) ! i) = []
        \<and> quantity_disabled (order_rows (handleProductChange A i s) ! i)
        \<and> notices (handleProductChange A i s)
            = notices s @ [(''Selected product is out of stock'', Error)])
   \<and> (selected (order_rows s ! i) = Some p \<and> prod_name p \<noteq> [] \<and> prod_stock p \<noteq> 0
        \<and> \<bar>prod_stock p\<bar> \<le> 2 ^ 53 \<longrightarrow>
        max_attr (order_rows (handleProductChange A i s) ! i) = Some (prod_stock p)
        \<and> quantity_val (order_rows (handleProductChange A i s) ! i) = quantity_val (order_rows s ! i)
        \<and> notices (handleProductChange A i s) = notices s)"
proof (intro conjI impI)
  assume a: "max_attr (order_rows s ! i) = Some b \<and> parseInt (quantity_val (order_rows s ! i)) = Some q
      \<and> \<bar>b\<bar> \<le> 2 ^ 53 \<and> \<bar>q\<bar> \<le> 2 ^ 53"
  then have b: "max_attr (order_rows s ! i) = Some b"
    and q: "parseInt (quantity_val (order_rows s ! i)) = Some q"
    by blast+
  {
    assume "b < q"
    with handleQuantityChange_clamps [OF assms b q, of A]
    show "quantity_val (order_rows (handleQuantityChange A i s) ! i) = show_int b"
      and "parseInt (quantity_val (order_rows (handleQuantityChange A i s) ! i)) = Some b"
      and "notices (handleQuantityChange A i s)
             = notices s @ [(''Maximum available quantity is '' @ show_int b, Info)]"
      by (simp_all add: parseInt_show_int)
  }
  {
    assume "q \<le> b"
    with handleQuantityChange_keeps [OF assms b q, of A]
    show "quantity_val (order_rows (handleQuantityChange A i s) ! i) = quantity_val (order_rows s ! i)"
      and "notices (handleQuantityChange A i s) = notices s"
      by simp_all
  }
  from handleQuantityChange_bounded [OF assms b q, of A]
  show "\<exists>q'. parseInt (quantity_val (order_rows (handleQuantityChange A i s) ! i)) = Some q'
               \<and> q' \<le> b" .
next
  assume "max_attr (order_rows s ! i) = None \<or> parseInt (quantity_val (order_rows s ! i)) = None"
  with handleQuantityChange_unread [OF assms, of A]
  show "quantity_val (order_rows (handleQuantityChange A i s) ! i) = quantity_val (order_rows s ! i)"
    and "notices (handleQuantityChange A i s) = notices s"
    by simp_all
next
  assume a: "selected (order_rows s ! i) = Some p \<and> prod_name p \<noteq> [] \<and> prod_stock p = 0"
  with handleProductChange_out_of_stock [OF assms, of p A]
  show "quantity_val (order_rows (handleProductChange A i s) ! i) = []"
    and "quantity_disabled (order_rows (handleProductChange A i s) ! i)"
    and "notices (handleProductChange A i s)
              = notices s @ [(''Selected product is out of stock'', Error)]"
    by simp_all
next
  assume a: "selected (order_rows s ! i) = Some p \<and> prod_name p \<noteq> [] \<and> prod_stock p \<noteq> 0
        \<and> \<bar>prod_stock p\<bar> \<le> 2 ^ 53"
  with handleProductChange_in_stock [OF assms, of p A]
  show "max_attr (order_rows (handleProductChange A i s) ! i) = Some (prod_stock p)"
    and "quantity_val (order_rows (handleProductChange A i s) ! i) = quantity_val (order_rows s ! i)"
    and "notices (handleProductChange A i s) = notices s"
    by simp_all
qed

theorem quantity_clamped_to_row_bound_witness:
  "quantity_val (order_rows (handleQuantityChange exact_arith 0 over_order) ! 0) = ''5''
   \<and> notices (handleQuantityChange exact_arith 0 over_order)
       = [(''Maximum available quantity is 5'', Info)]
   \<and> quantity_val (order_rows (handleQuantityChange exact_arith 0 asha_order) ! 0) = ''3''
   \<and> notices (handleQuantityChange exact_arith 0 asha_order) = []
   \<and> quantity_val (order_rows (handleQuantityChange exact_arith 0
        (over_order\<lparr>order_rows := [(new_row 0)\<lparr>quantity_val := ''7''\<rparr>]\<rparr>)) ! 0) = ''7''
   \<and> max_attr (order_rows (handleProductChange exact_arith 0 over_order) ! 0) = Some 5
   \<and> quantity_val (order_rows (handleProductChange exact_arith 0 over_order) ! 0) = ''8''
   \<and> quantity_val (order_rows (handleProductChange exact_arith 0 oil_order) ! 0) = []
   \<and> quantity_disabled (order_rows (handleProductChange exact_arith 0 oil_order) ! 0)
   \<and> notices (handleProductChange exact_arith 0 oil_order)
       = [(''Selected product is out of stock'', Error)]"
proof -
  have i1: "0 < length (order_rows over_order)" and i2: "0 < length (order_rows oil_order)"
    and i3: "0 < length (order_rows asha_order)"
    and i4: "0 < length (order_rows (over_order\<lparr>order_rows := [(new_row 0)\<lparr>quantity_val := ''7''\<rparr>]\<rparr>))"
    by (simp_all add: over_order_def oil_order_def asha_order_def)
  have r1: "order_rows over_order ! 0 =
      \<lparr>data_index = 0, selected = Some rice, quantity_val = ''8'', quantity_disabled = False,
        quantity_max = Some ''5'', subtotal_text = rupee @ ''0.00''\<rparr>"
    and n1: "notices over_order = []"
    by (simp_all add: over_order_def)
  have r2: "order_rows oil_order ! 0 =
      \<lparr>data_index = 0, selected = Some oil, quantity_val = ''2'', quantity_disabled = False,
        quantity_max = Some ''4'', subtotal_text = rupee @ ''0.00''\<rparr>"
    and n2: "notices oil_order = []"
    by (simp_all add: oil_order_def)
  have r3: "order_rows asha_order ! 0 =
      \<lparr>data_index = 0, selected = Some rice, quantity_val = ''3'', quantity_disabled = False,
        quantity_max = Some ''5'', subtotal_text = rupee @ ''150.00''\<rparr>"
    and n3: "notices asha_order = []"
    by (simp_all add: asha_order_def)
  have r4: "order_rows (over_order\<lparr>order_rows := [(new_row 0)\<lparr>quantity_val := ''7''\<rparr>]\<rparr>) ! 0
      = (new_row 0)\<lparr>quantity_val := ''7''\<rparr>"
    by simp
  have p5: "parseInt ''5'' = Some 5" and p8: "parseInt ''8'' = Some 8"
    and p3: "parseInt ''3'' = Some 3"
    by (simp_all add: parse_eval)
  have s5: "show_int 5 = ''5''"
    by (simp add: format_eval)
  have h1: "max_attr (order_rows over_order ! 0) = Some 5
      \<and> parseInt (quantity_val (order_rows over_order ! 0)) = Some 8
      \<and> \<bar>5::int\<bar> \<le> 2 ^ 53 \<and> \<bar>8::int\<bar> \<le> 2 ^ 53 \<and> (5::int) < 8"
    by (simp add: r1 max_attr_def p5 p8)
  have h2: "selected (order_rows over_order ! 0) = Some rice \<and> prod_name rice \<noteq> []
      \<and> prod_stock rice \<noteq> 0 \<and> \<bar>prod_stock rice\<bar> \<le> 2 ^ 53 \<and> prod_stock rice = 5"
    by (simp add: r1 rice_def)
  have h3: "selected (order_rows oil_order ! 0) = Some oil \<and> prod_name oil \<noteq> []
      \<and> prod_stock oil = 0"
    by (simp add: r2 oil_def)
  have h4: "max_attr (order_rows asha_order ! 0) = Some 5
      \<and> parseInt (quantity_val (order_rows asha_order ! 0)) = Some 3
      \<and> \<bar>5::int\<bar> \<le> 2 ^ 53 \<and> \<bar>3::int\<bar> \<le> 2 ^ 53 \<and> (3::int) \<le> 5"
    by (simp add: r3 max_attr_def p5 p3)
  have h5: "max_attr (order_rows (over_order\<lparr>order_rows := [(new_row 0)\<lparr>quantity_val := ''7''\<rparr>]\<rparr>) ! 0)
      = None"
    by (simp add: max_attr_def new_row_def)
  from quantity_clamped_to_row_bound [OF i1, of 5 8 exact_arith rice] h1 h2 n1 s5 r1
  have c1: "quantity_val (order_rows (handleQuantityChange exact_arith 0 over_order) ! 0) = ''5''
      \<and> notices (handleQuantityChange exact_arith 0 over_order)
          = [(''Maximum available quantity is 5'', Info)]
      \<and> max_attr (order_rows (handleProductChange exact_arith 0 over_order) ! 0) = Some 5
      \<and> quantity_val (order_rows (handleProductChange exact_arith 0 over_order) ! 0) = ''8''"
    by simp
  from quantity_clamped_to_row_bound [OF i2, of 0 0 exact_arith oil] h3 n2
  have c2: "quantity_val (order_rows (handleProductChange exact_arith 0 oil_order) ! 0) = []
      \<and> quantity_disabled (order_rows (handleProductChange exact_arith 0 oil_order) ! 0)
      \<and> notices (handleProductChange exact_arith 0 oil_order)
          = [(''Selected product is out of stock'', Error)]"
    by simp
  from quantity_clamped_to_row_bound [OF i3, of 5 3 exact_arith rice] h4 n3 r3
  have c3: "quantity_val (order_rows (handleQuantityChange exact_arith 0 asha_order) ! 0) = ''3''
      \<and> notices (handleQuantityChange exact_arith 0 asha_order) = []"
    by simp
  from quantity_clamped_to_row_bound [OF i4, of 0 0 exact_arith rice] h5
  have c4: "quantity_val (order_rows (handleQuantityChange exact_arith 0
        (over_order\<lparr>order_rows := [(new_row 0)\<lparr>quantity_val := ''7''\<rparr>]\<rparr>)) ! 0) = ''7''"
    by (simp add: new_row_def)
  from c1 c2 c3 c4 show ?thesis
    by blast
qed

text \<open>
  C3, as stated, fails in two ways. A quantity above the bound is not always clamped:
  with the bound 5, the entry \<open>5.5\<close> is read as 5 by \<open>parseInt\<close>, stays in the input as
  typed, and nothing is notified, though the number entered is above 5. And the quantity
  is not always at most the stock of the selected product: with Salt (stock 30) selected,
  20 is entered and kept; when Rice (stock 5) is then selected in the same row, the bound
  becomes 5 and the quantity stays 20.
\<close>

theorem quantity_above_stock_counterexample:
  "max_attr (order_rows over_order ! 0) = Some 5
   \<and> parseFloat ''5.5'' = Num (11 / 2)
   \<and> quantity_val (order_rows (row_step exact_arith (QuantityInput 0 ''5.5'') over_order) ! 0) = ''5.5''
   \<and> notices (row_step exact_arith (QuantityInput 0 ''5.5'') over_order) = []
   \<and> selected (order_rows (run exact_arith [ProductsFetched (HttpOk [rice, salt]), RowEvent AddClick,
       RowEvent (ProductChange 0 (Some salt)), RowEvent (QuantityInput 0 ''20''),
       RowEvent (ProductChange 0 (Some rice))] (store_init exact_arith)) ! 0) = Some rice
   \<and> parseInt (quantity_val (order_rows (run exact_arith [ProductsFetched (HttpOk [rice, salt]),
       RowEvent AddClick, RowEvent (ProductChange 0 (Some salt)), RowEvent (QuantityInput 0 ''20''),
       RowEvent (ProductChange 0 (Some rice))] (store_init exact_arith)) ! 0)) = Some 20
   \<and> prod_stock rice = 5"
proof -
  have p5: "parseInt ''5'' = Some 5" and p55: "parseInt ''5.5'' = Some 5"
    and f55: "parseFloat ''5.5'' = Num (11 / 2)"
    by (simp_all add: parse_eval)
  have m: "max_attr (order_rows over_order ! 0) = Some 5"
    by (simp add: over_order_def max_attr_def p5)
  have typed: "quantity_val (order_rows (row_step exact_arith (QuantityInput 0 ''5.5'') over_order) ! 0)
        = ''5.5''
      \<and> notices (row_step exact_arith (QuantityInput 0 ''5.5'') over_order) = []"
    by (simp add: row_step_def over_order_def handleQuantityChange_rows handleQuantityChange_notices
        max_attr_def p5 p55 Let_def)
  have q20: "parseInt ''20'' = Some 20"
    by (simp add: parse_eval)
  define s1 where "s1 = run exact_arith [ProductsFetched (HttpOk [rice, salt]), RowEvent AddClick]
      (store_init exact_arith)"
  have r1: "order_rows s1 = [new_row 0]"
    by (simp add: s1_def run_Cons run_Nil step_def row_step_def addProductRow_rows)
  define s2 where "s2 = step exact_arith (RowEvent (ProductChange 0 (Some salt))) s1"
  have r2: "length (order_rows s2) = 1 \<and> selected (order_rows s2 ! 0) = Some salt
      \<and> \<not> quantity_disabled (order_rows s2 ! 0)
      \<and> quantity_max (order_rows s2 ! 0) = Some (show_int 30)"
    by (simp add: s2_def step_def row_step_def r1 handleProductChange_rows new_row_def salt_def
        Let_def)
  define s3 where "s3 = step exact_arith (RowEvent (QuantityInput 0 ''20'')) s2"
  have r3: "selected (order_rows s3 ! 0) = Some salt \<and> quantity_val (order_rows s3 ! 0) = ''20''
      \<and> length (order_rows s3) = 1"
    using r2
    by (simp add: s3_def step_def row_step_def handleQuantityChange_rows max_attr_def
        parseInt_show_int q20 Let_def)
  define s4 where "s4 = step exact_arith (RowEvent (ProductChange 0 (Some rice))) s3"
  have r4: "selected (order_rows s4 ! 0) = Some rice \<and> quantity_val (order_rows s4 ! 0) = ''20''"
    using r3 by (simp add: s4_def step_def row_step_def handleProductChange_rows rice_def Let_def)
  have "run exact_arith [ProductsFetched (HttpOk [rice, salt]), RowEvent AddClick,
       RowEvent (ProductChange 0 (Some salt)), RowEvent (QuantityInput 0 ''20''),
       RowEvent (ProductChange 0 (Some rice))] (store_init exact_arith) = s4"
    by (simp add: s4_def s3_def s2_def s1_def run_def)
  with r4 q20 m f55 typed show ?thesis
    by (simp add: rice_def)
qed

section \<open>The order total\<close>

lemma row_subtotal_text [simp]: "row_subtotal A (r\<lparr>subtotal_text := t\<rparr>) = row_subtotal A r"
  by (simp add: row_subtotal_def row_price_def row_quantity_def)

lemma updateOrderTotal_total [simp]:
  "orderTotal (updateOrderTotal A s) = displayed_total A (order_rows s)"
  by (simp add: updateOrderTotal_def)

lemma calculateRowSubtotal_total [simp]:
  "orderTotal (calculateRowSubtotal A i s) = displayed_total A (order_rows (calculateRowSubtotal A i s))"
  by (simp add: calculateRowSubtotal_def)

text \<open>Every handler leaves the stored total equal to the recomputed one.\<close>

lemma addProductRow_total:
  "orderTotal s = displayed_total A (order_rows s) \<Longrightarrow>
     orderTotal (addProductRow A s) = displayed_total A (order_rows (addProductRow A s))"
  by (simp add: addProductRow_def)

lemma removeProductRow_total:
  "orderTotal s = displayed_total A (order_rows s) \<Longrightarrow>
     orderTotal (removeProductRow A i s) = displayed_total A (order_rows (removeProductRow A i s))"
  by (simp add: removeProductRow_def Let_def addProductRow_total)

lemma handleProductChange_total:
  "orderTotal (handleProductChange A i s) = displayed_total A (order_rows (handleProductChange A i s))"
  by (simp add: handleProductChange_def Let_def)

lemma handleQuantityChange_total:
  "orderTotal (handleQuantityChange A i s) = displayed_total A (order_rows (handleQuantityChange A i s))"
  by (simp add: handleQuantityChange_def Let_def)

lemma row_step_total:
  "orderTotal s = displayed_total A (order_rows s) \<Longrightarrow>
     orderTotal (row_step A e s) = displayed_total A (order_rows (row_step A e s))"
  by (cases e)
    (simp_all add: row_step_def addProductRow_total removeProductRow_total
      handleProductChange_total handleQuantityChange_total)

text \<open>A fetch of the products touches neither the rendered subtotals nor the total.\<close>

lemma reselect_text [simp]: "subtotal_text (reselect ps r) = subtotal_text r"
  by (simp add: reselect_def split: option.splits)

lemma displayed_total_reselect:
  "displayed_total A (map (reselect ps) rs) = displayed_total A rs"
  by (simp add: displayed_total_def foldl_map)

lemma fetchProducts_gs_total:
  "orderTotal (fetchProducts_gs resp s) = orderTotal s"
  "displayed_total A (order_rows (fetchProducts_gs resp s)) = displayed_total A (order_rows s)"
  by (cases resp; simp add: fetchProducts_gs_def updateProductSelects_def displayed_total_reselect)+

lemma step_total:
  "orderTotal s = displayed_total A (order_rows s) \<Longrightarrow>
     orderTotal (step A e s) = displayed_total A (order_rows (step A e s))"
  by (cases e) (simp_all add: step_def row_step_total fetchProducts_gs_total)

lemma run_total:
  "orderTotal s = displayed_total A (order_rows s) \<Longrightarrow>
     orderTotal (run A es s) = displayed_total A (order_rows (run A es s))"
proof (induction es arbitrary: s)
  case Nil
  then show ?case
    by (simp add: run_Nil)
next
  case (Cons e es)
  from Cons.IH [OF step_total [OF Cons.prems, of e]] show ?case
    by (simp add: run_Cons)
qed

text \<open>
  Every row handler leaves each subtotal text the formatted subtotal of its row, provided
  the formatted product of zero by zero is the text a new row is created with.
\<close>

lemma list_all_update:
  "list_all P xs \<Longrightarrow> P y \<Longrightarrow> list_all P (xs[i := y])"
  by (induction xs arbitrary: i) (auto split: nat.splits)

lemma list_all_remove_nth: "list_all P xs \<Longrightarrow> list_all P (remove_nth i xs)"
  by (auto simp: remove_nth_def list_all_iff dest: in_set_takeD in_set_dropD)

lemma new_row_text:
  "num_formatCurrency A (num_mul A (num_zero A) (num_zero A)) = rupee @ ''0.00'' \<Longrightarrow>
     subtotal_text (new_row k) = num_formatCurrency A (row_subtotal A (new_row k))"
  by (simp add: new_row_def row_subtotal_def row_price_def row_quantity_def parseInt_def trim_def)

lemma recalculated_rows_ok:
  assumes "list_all (\<lambda>r. subtotal_text r = num_formatCurrency A (row_subtotal A r)) rs"
  shows "list_all (\<lambda>r. subtotal_text r = num_formatCurrency A (row_subtotal A r))
           (rs[i := r'\<lparr>subtotal_text := num_formatCurrency A (row_subtotal A r')\<rparr>])"
  using assms by (rule list_all_update) simp

lemma addProductRow_texts:
  "num_formatCurrency A (num_mul A (num_zero A) (num_zero A)) = rupee @ ''0.00'' \<Longrightarrow>
   list_all (\<lambda>r. subtotal_text r = num_formatCurrency A (row_subtotal A r)) (order_rows s) \<Longrightarrow>
     list_all (\<lambda>r. subtotal_text r = num_formatCurrency A (row_subtotal A r))
       (order_rows (addProductRow A s))"
  by (simp add: addProductRow_rows new_row_text)

lemma removeProductRow_texts:
  assumes z: "num_formatCurrency A (num_mul A (num_zero A) (num_zero A)) = rupee @ ''0.00''"
    and "list_all (\<lambda>r. subtotal_text r = num_formatCurrency A (row_subtotal A r)) (order_rows s)"
  shows "list_all (\<lambda>r. subtotal_text r = num_formatCurrency A (row_subtotal A r))
           (order_rows (removeProductRow A i s))"
proof (cases "i < length (order_rows s)")
  case True
  from assms(2) have "list_all (\<lambda>r. subtotal_text r = num_formatCurrency A (row_subtotal A r))
      (remove_nth i (order_rows s))"
    by (rule list_all_remove_nth)
  with True show ?thesis
    by (simp add: removeProductRow_def Let_def addProductRow_rows new_row_text [OF z])
next
  case False
  with assms(2) show ?thesis
    by (simp add: removeProductRow_def)
qed

lemma handleProductChange_texts:
  assumes "list_all (\<lambda>r. subtotal_text r = num_formatCurrency A (row_subtotal A r)) rs"
    and "i < length rs"
  shows "list_all (\<lambda>r. subtotal_text r = num_formatCurrency A (row_subtotal A r))
           (order_rows (handleProductChange A i (s\<lparr>order_rows := rs[i := r0]\<rparr>)))"
  using assms(2)
  by (simp add: handleProductChange_rows Let_def recalculated_rows_ok [OF assms(1)]
      split: option.splits)

lemma handleQuantityChange_texts:
  assumes "list_all (\<lambda>r. subtotal_text r = num_formatCurrency A (row_subtotal A r)) rs"
    and "i < length rs"
  shows "list_all (\<lambda>r. subtotal_text r = num_formatCurrency A (row_subtotal A r))
           (order_rows (handleQuantityChange A i (s\<lparr>order_rows := rs[i := r0]\<rparr>)))"
  using assms(2)
  by (simp add: handleQuantityChange_rows Let_def recalculated_rows_ok [OF assms(1)]
      split: option.splits)

lemma row_step_texts:
  assumes z: "num_formatCurrency A (num_mul A (num_zero A) (num_zero A)) = rupee @ ''0.00''"
    and "list_all (\<lambda>r. subtotal_text r = num_formatCurrency A (row_subtotal A r)) (order_rows s)"
  shows "list_all (\<lambda>r. subtotal_text r = num_formatCurrency A (row_subtotal A r))
           (order_rows (row_step A e s))"
proof (cases e)
  case AddClick
  with assms show ?thesis
    by (simp add: row_step_def addProductRow_texts)
next
  case (RemoveClick i)
  with assms show ?thesis
    by (simp add: row_step_def removeProductRow_texts)
next
  case (ProductChange i sel)
  with assms(2) show ?thesis
    by (simp add: row_step_def handleProductChange_texts)
next
  case (QuantityInput i v)
  with assms(2) show ?thesis
    by (simp add: row_step_def handleQuantityChange_texts)
qed

lemma run_rows_texts:
  assumes z: "num_formatCurrency A (num_mul A (num_zero A) (num_zero A)) = rupee @ ''0.00''"
    and "list_all (\<lambda>r. subtotal_text r = num_formatCurrency A (row_subtotal A r)) (order_rows s)"
  shows "list_all (\<lambda>r. subtotal_text r = num_formatCurrency A (row_subtotal A r))
           (order_rows (run_rows A es s))"
  using assms(2)
proof (induction es arbitrary: s)
  case Nil
  then show ?case
    by (simp add: run_rows_def)
next
  case (Cons e es)
  have "run_rows A (e # es) s = run_rows A es (row_step A e s)"
    by (simp add: run_rows_def)
  with Cons.IH [OF row_step_texts [OF z Cons.prems, of e]] show ?case
    by simp
qed

text \<open>The row that a change of product or an entry of quantity has just recomputed.\<close>

lemma product_change_row_text:
  assumes "i < length (order_rows s)"
  shows "subtotal_text (order_rows (row_step A (ProductChange i sel) s) ! i)
           = num_formatCurrency A (row_subtotal A (order_rows (row_step A (ProductChange i sel) s) ! i))"
  using assms by (simp add: row_step_def handleProductChange_rows Let_def split: option.splits)

lemma quantity_input_row_text:
  assumes "i < length (order_rows s)" and "\<not> quantity_disabled (order_rows s ! i)"
  shows "subtotal_text (order_rows (row_step A (QuantityInput i v) s) ! i)
           = num_formatCurrency A (row_subtotal A (order_rows (row_step A (QuantityInput i v) s) ! i))"
  using assms by (simp add: row_step_def handleQuantityChange_rows Let_def split: option.splits)


lemma exact_arith_sel:
  "num_zero exact_arith = Num 0"
  "num_add exact_arith = js_add"
  "num_mul exact_arith = js_mul"
  "num_truthy exact_arith = js_truthy"
  "num_of_int exact_arith k = Num (real_of_int k)"
  "num_of_json exact_arith x = Num x"
  "num_parseFloat exact_arith = parseFloat"
  "num_formatCurrency exact_arith = format_jsnum"
  by (simp_all add: exact_arith_def)

lemma shown_amounts:
  "format_jsnum (Num 0) = rupee @ ''0.00''"
  "format_jsnum (Num 100) = rupee @ ''100.00''"
  "format_jsnum (Num 150) = rupee @ ''150.00''"
  by (simp_all add: format_jsnum_def format_eval)

lemma read_back_150: "parseFloat (strip_currency (rupee @ ''150.00'')) = Num 150"
  by (simp add: rupee_def parse_eval)


end
